theory Spec2Isabelle
  imports Main
begin

section \<open>Data model of \<open>main.go\<close>\<close>

text \<open>
  The Go structs become records with the fields of the source. Go's \<open>int\<close> fields hold
  64-bit values decoded from JSON; the program converts, compares and prints them and does
  no arithmetic on them itself, so they are modelled as \<open>int\<close>. The one place where
  their range matters is \<open>time.Unix\<close>, which adds a constant to the end time in
  \<open>int64\<close>; there the wrap-around is written out (see \<open>time_Unix\<close>). Strings are byte
  strings.
\<close>

record Token =
  AccessToken :: string
  ExpiresIn :: int

record Session =
  ID :: string
  ResourceID :: string
  AccountID :: string
  StartTime :: int
  EndTime :: int

record Sessions =
  Events :: "Session list"

record PlaybackToken =
  Token :: string

record PlaybackURL =
  URL :: string

definition manifestFormatHLS :: string where
  "manifestFormatHLS = ''hls''"

definition manifestFormatDASH :: string where
  "manifestFormatDASH = ''dash''"

definition vodWindowDuration :: int where
  "vodWindowDuration = 14"

text \<open>The anonymous struct that \<open>generatePlaybackToken\<close> encodes as the JSON request body.\<close>

record mint_data =
  data_StartTime :: string
  data_EndTime :: string
  data_ManifestFormat :: string

subsection \<open>Errors\<close>

text \<open>
  One constructor per place where the source creates an error; the argument of a wrapping
  error (\<open>%w\<close>) is the message of the wrapped library error. \<open>Error\<close> renders the
  message the Go value would print.

  A Go function that returns a value and an \<open>error\<close> returns here the pair of the value
  and an \<open>error option\<close>, \<open>None\<close> for \<open>nil\<close>: \<open>return nil, err\<close> is \<open>([], Some err)\<close>
  for a slice and \<open>(None, Some err)\<close> for a pointer. Every function also takes the world
  before the call and returns the world after it.
\<close>

datatype error =
    FramingRequest string
  | GettingResponse string
  | ReadingBody string
  | APIStatus int string
  | DecodingBody string
  | ParsingPlaybackURL string
  | MalformedPlaybackURL
  | NoEvents
  | OngoingLive string
  | EncodingJSON string
  | NoValidSessions

subsection \<open>Decimal rendering (\<open>strconv.Itoa\<close>, the verb \<open>%d\<close>)\<close>

fun nat_digits :: "nat \<Rightarrow> string" where
  "nat_digits n =
     (if n < 10 then [''0123456789'' ! n]
      else nat_digits (n div 10) @ [''0123456789'' ! (n mod 10)])"

declare nat_digits.simps [simp del]

definition Itoa :: "int \<Rightarrow> string" where
  "Itoa i = (if i < 0 then CHR ''-'' # nat_digits (nat (- i)) else nat_digits (nat i))"

fun Error :: "error \<Rightarrow> string" where
  "Error (FramingRequest e) = ''error framing request: '' @ e"
| "Error (GettingResponse e) = ''error getting response: '' @ e"
| "Error (ReadingBody e) = ''error reading body: '' @ e"
| "Error (APIStatus code body) =
     ''received error from API with status '' @ Itoa code @ '' and error '' @ body"
| "Error (DecodingBody e) = ''error decoding body: '' @ e"
| "Error (ParsingPlaybackURL e) = ''error parsing playbackURL: '' @ e"
| "Error MalformedPlaybackURL = ''malformed playback URL provided''"
| "Error NoEvents = ''no events in session, quitting''"
| "Error (OngoingLive resource) =
     ''resource '' @ resource @
     '' has an ongoing live session, cannot generate VOD URLs until the stream ends''"
| "Error (EncodingJSON e) = ''error encoding JSON: '' @ e"
| "Error NoValidSessions = ''no valid sessions to continue''"

subsection \<open>Requests, responses and the outside world\<close>

text \<open>
  A request as \<open>doRequest\<close> builds it: method, URL, payload (\<open>None\<close> for a \<open>nil\<close>
  reader) and the headers it sets, in the order of the source's literal. A response is the
  status code together with what \<open>io.ReadAll\<close> yields for its body: the raw bytes, or
  the error of a read that failed.
\<close>

record request =
  req_method :: string
  req_url :: string
  req_payload :: "string option"
  req_header :: "(string \<times> string) list"

record response =
  StatusCode :: int
  Body :: "string + string"

text \<open>
  Everything the program does not implement itself is a parameter: the library functions
  it calls and the peers it talks to. \<open>client_Do\<close> answers a request given the requests
  attempted before it; \<open>clock\<close> gives the instant (nanoseconds since the Unix epoch) that
  the \<open>n\<close>-th call of \<open>time.Now\<close> returns; \<open>NewRequest\<close> is the error, if any, of
  \<open>http.NewRequest\<close> for a verb and a URL; \<open>url_Parse\<close> yields the \<open>Path\<close> of the
  parsed URL; \<open>json_Encode\<close> and the \<open>Unmarshal\<close> functions are the JSON codec at the
  types the program uses it. \<open>os_Args\<close> is the argument vector, \<open>godotenv_Load\<close> the
  error, if any, of loading the \<open>.env\<close> file, and \<open>os_Getenv\<close> the process environment
  as read after that load.

  The list of requests grows with every attempt and the number of readings with every
  reading, so no question is asked twice in a run: whatever the peer and the clock do in
  a run is some \<open>client_Do\<close> and some \<open>clock\<close>.
\<close>

record env =
  NewRequest :: "string \<Rightarrow> string \<Rightarrow> string option"
  client_Do :: "request list \<Rightarrow> request \<Rightarrow> string + response"
  clock :: "nat \<Rightarrow> int"
  url_Parse :: "string \<Rightarrow> string + string"
  base64_EncodeToString :: "string \<Rightarrow> string"
  json_Encode :: "mint_data \<Rightarrow> string + string"
  Unmarshal_Token :: "string \<Rightarrow> string + Token"
  Unmarshal_Sessions :: "string \<Rightarrow> string + Sessions"
  Unmarshal_PlaybackToken :: "string \<Rightarrow> string + PlaybackToken"
  Unmarshal_PlaybackURL :: "string \<Rightarrow> string + PlaybackURL"
  os_Args :: "string list"
  godotenv_Load :: "string option"
  os_Getenv :: "string \<Rightarrow> string"

text \<open>
  The effects of a run: the requests handed to the HTTP client (in order), the number of
  clock readings taken, and what was written to standard output and to the logger.
\<close>

record world =
  sent :: "request list"
  ticks :: nat
  out :: "string list"
  logged :: "string list"

definition time_Now :: "env \<Rightarrow> world \<Rightarrow> int \<times> world" where
  "time_Now env w = (clock env (ticks w), w\<lparr>ticks := Suc (ticks w)\<rparr>)"

definition Printf :: "string \<Rightarrow> world \<Rightarrow> world" where
  "Printf s w = w\<lparr>out := out w @ [s]\<rparr>"

subsection \<open>Instants\<close>

text \<open>
  An instant is a number of nanoseconds since the Unix epoch. Go keeps a \<open>Time\<close> as a
  count of seconds since 1 January of the year 1 in an \<open>int64\<close>, with the nanoseconds
  beside it, and \<open>time.Unix(sec, nsec)\<close> computes that count as
  \<open>sec + 62135596800\<close> after carrying the whole seconds of \<open>nsec\<close> into \<open>sec\<close>. Both
  arguments are \<open>int64\<close> and the constant is positive and larger than any carry, so the
  sum can leave the range of \<open>int64\<close> only at the top, where it wraps around by
  \<open>2 ^ 64\<close>: for \<open>sec\<close> above 9223371974719179007 the instant that \<open>time.Unix(sec, 0)\<close>
  returns lies \<open>2 ^ 64\<close> seconds before the one asked for. \<open>t.Before(u)\<close> holds when \<open>t\<close>
  is the earlier instant. In UTC a calendar day is 86400 seconds (Go's clock has no leap
  seconds), so \<open>t.UTC().AddDate(0, 0, d)\<close> moves the instant by \<open>d\<close> days of that length;
  it is applied to readings of the system clock only.
\<close>

definition time_Unix :: "int \<Rightarrow> int \<Rightarrow> int" where
  "time_Unix sec nsec =
     (let internal = sec + nsec div 1000000000 + 62135596800;
          ext = (if 9223372036854775807 < internal then internal - 18446744073709551616
                 else internal)
      in (ext - 62135596800) * 1000000000 + nsec mod 1000000000)"

definition Before :: "int \<Rightarrow> int \<Rightarrow> bool" where
  "Before t u = (t < u)"

definition UTC_AddDate_days :: "int \<Rightarrow> int \<Rightarrow> int" where
  "UTC_AddDate_days t d = t + d * 86400 * 1000000000"

section \<open>The HTTP transport\<close>

definition doRequest ::
  "env \<Rightarrow> world \<Rightarrow> string \<Rightarrow> string \<Rightarrow> string option \<Rightarrow> (string \<times> string) list
     \<Rightarrow> (string \<times> error option) \<times> world" where
  "doRequest env w method url payload headers =
     (case NewRequest env method url of
        Some e \<Rightarrow> (([], Some (FramingRequest e)), w)
      | None \<Rightarrow>
          (let req = \<lparr>req_method = method, req_url = url, req_payload = payload,
                      req_header = headers\<rparr>;
               w' = w\<lparr>sent := sent w @ [req]\<rparr>
           in case client_Do env (sent w) req of
                Inl e \<Rightarrow> (([], Some (GettingResponse e)), w')
              | Inr resp \<Rightarrow>
                  (case Body resp of
                     Inl e \<Rightarrow> (([], Some (ReadingBody e)), w')
                   | Inr body \<Rightarrow>
                       if StatusCode resp \<noteq> 200
                       then (([], Some (APIStatus (StatusCode resp) body)), w')
                       else ((body, None), w'))))"

section \<open>Minting playback tokens\<close>

definition mint_url :: "Session \<Rightarrow> string" where
  "mint_url session =
     ''https://api.live.brightcove.com/v2/accounts/'' @ AccountID session @
     ''/playback/'' @ ResourceID session @ ''/token''"

definition bearer_headers :: "string \<Rightarrow> (string \<times> string) list" where
  "bearer_headers token =
     [(''Content-Type'', ''application/json''), (''Authorization'', ''Bearer '' @ token)]"

definition mint_payload :: "Session \<Rightarrow> mint_data" where
  "mint_payload session =
     \<lparr>data_StartTime = Itoa (StartTime session),
      data_EndTime = Itoa (EndTime session),
      data_ManifestFormat = manifestFormatHLS\<rparr>"

definition out_of_window :: "int \<Rightarrow> Session \<Rightarrow> bool" where
  "out_of_window now session =
     Before (time_Unix (EndTime session) 0) (UTC_AddDate_days now (- vodWindowDuration))"

definition skip_notice :: "Session \<Rightarrow> string" where
  "skip_notice session =
     ''resource '' @ ID session @ '' was streamed before 14 days with end time '' @
     Itoa (EndTime session) @ '', VOD window out of range'' @ [CHR 0x0A]"

text \<open>
  The second loop of \<open>generatePlaybackToken\<close>. The result \<open>(ts, Some e)\<close> is a
  \<open>return\<close> from inside the loop, \<open>(ts, None)\<close> the accumulated slice when the loop
  runs to its end.
\<close>

fun mint_loop ::
  "env \<Rightarrow> string \<Rightarrow> string \<Rightarrow> Session list \<Rightarrow> PlaybackToken list \<Rightarrow> world
     \<Rightarrow> (PlaybackToken list \<times> error option) \<times> world" where
  "mint_loop env url token [] playbackTokens w = ((playbackTokens, None), w)"
| "mint_loop env url token (session # rest) playbackTokens w =
     (case time_Now env w of (now, w1) \<Rightarrow>
        if out_of_window now session
        then mint_loop env url token rest playbackTokens (Printf (skip_notice session) w1)
        else
          (case json_Encode env (mint_payload session) of
             Inl e \<Rightarrow> (([], Some (EncodingJSON e)), w1)
           | Inr buf \<Rightarrow>
               (case doRequest env w1 ''POST'' url (Some buf) (bearer_headers token) of
                  ((body, Some err), w2) \<Rightarrow> (([], Some err), w2)
                | ((body, None), w2) \<Rightarrow>
                    (case Unmarshal_PlaybackToken env body of
                       Inl e \<Rightarrow> (([], Some (DecodingBody e)), w2)
                     | Inr playbackToken \<Rightarrow>
                         mint_loop env url token rest (playbackTokens @ [playbackToken]) w2))))"

definition generatePlaybackToken ::
  "env \<Rightarrow> world \<Rightarrow> Sessions \<Rightarrow> string \<Rightarrow> (PlaybackToken list \<times> error option) \<times> world" where
  "generatePlaybackToken env w sessions token =
     (case Events sessions of
        [] \<Rightarrow> (([], Some NoEvents), w)
      | session # _ \<Rightarrow>
          (case find (\<lambda>s. EndTime s = 0) (Events sessions) of
             Some live \<Rightarrow> (([], Some (OngoingLive (ResourceID live))), w)
           | None \<Rightarrow>
               (case mint_loop env (mint_url session) token (Events sessions) [] w of
                  ((playbackTokens, Some err), w') \<Rightarrow> ((playbackTokens, Some err), w')
                | ((playbackTokens, None), w') \<Rightarrow>
                    if length playbackTokens = 0
                    then (([], Some NoValidSessions), w')
                    else ((playbackTokens, None), w'))))"

section \<open>Resolving playback URLs\<close>

definition resolve_url :: "string \<Rightarrow> PlaybackToken \<Rightarrow> string" where
  "resolve_url resourceID token =
     ''https://api.live.brightcove.com/v2/playback/'' @ resourceID @ ''?pt='' @ Token token"

fun resolve_loop ::
  "env \<Rightarrow> string \<Rightarrow> PlaybackToken list \<Rightarrow> PlaybackURL list \<Rightarrow> world
     \<Rightarrow> (PlaybackURL list \<times> error option) \<times> world" where
  "resolve_loop env resourceID [] playbackURLs w = ((playbackURLs, None), w)"
| "resolve_loop env resourceID (token # rest) playbackURLs w =
     (case doRequest env w ''GET'' (resolve_url resourceID token) None
             [(''Content-Type'', ''application/json'')] of
        ((body, Some err), w1) \<Rightarrow> (([], Some err), w1)
      | ((body, None), w1) \<Rightarrow>
          (case Unmarshal_PlaybackURL env body of
             Inl e \<Rightarrow> (([], Some (DecodingBody e)), w1)
           | Inr playbackURL \<Rightarrow>
               resolve_loop env resourceID rest (playbackURLs @ [playbackURL]) w1))"

definition generatePlaybackURL ::
  "env \<Rightarrow> world \<Rightarrow> PlaybackToken list \<Rightarrow> string \<Rightarrow> (PlaybackURL list \<times> error option) \<times> world" where
  "generatePlaybackURL env w tokens resourceID = resolve_loop env resourceID tokens [] w"

section \<open>Looking up the sessions\<close>

text \<open>\<open>strings.Split\<close> for a separator of one byte, as the source calls it.\<close>

fun split_acc :: "char \<Rightarrow> string \<Rightarrow> string \<Rightarrow> string list" where
  "split_acc sep acc [] = [rev acc]"
| "split_acc sep acc (c # cs) =
     (if c = sep then rev acc # split_acc sep [] cs else split_acc sep (c # acc) cs)"

definition strings_Split :: "string \<Rightarrow> char \<Rightarrow> string list" where
  "strings_Split s sep = split_acc sep [] s"

definition sessions_url :: "string \<Rightarrow> string \<Rightarrow> string" where
  "sessions_url accountID resourceID =
     ''https://api.live.brightcove.com/v2/accounts/'' @ accountID @
     ''/sessions/resource/'' @ resourceID"

definition getSessions ::
  "env \<Rightarrow> world \<Rightarrow> string \<Rightarrow> string
     \<Rightarrow> (Sessions option \<times> string \<times> error option) \<times> world" where
  "getSessions env w token playbackURL =
     (case url_Parse env playbackURL of
        Inl e \<Rightarrow> ((None, [], Some (ParsingPlaybackURL e)), w)
      | Inr path \<Rightarrow>
          (let pathParts = strings_Split path CHR ''/'' in
           if length pathParts < 6 then ((None, [], Some MalformedPlaybackURL), w)
           else
             (let resourceID = pathParts ! 1;
                  url = sessions_url (pathParts ! 3) (pathParts ! 1)
              in case doRequest env w ''GET'' url None (bearer_headers token) of
                   ((body, Some err), w1) \<Rightarrow> ((None, [], Some err), w1)
                 | ((body, None), w1) \<Rightarrow>
                     (case Unmarshal_Sessions env body of
                        Inl e \<Rightarrow> ((None, [], Some (DecodingBody e)), w1)
                      | Inr sessions \<Rightarrow> ((Some sessions, resourceID, None), w1)))))"

section \<open>Exchanging the credentials\<close>

definition generateToken ::
  "env \<Rightarrow> world \<Rightarrow> string \<Rightarrow> string \<Rightarrow> (Token option \<times> error option) \<times> world" where
  "generateToken env w clientID clientSecret =
     (let encodedCredentials = base64_EncodeToString env (clientID @ '':'' @ clientSecret)
      in case doRequest env w ''POST'' ''https://oauth.brightcove.com/v4/access_token''
                (Some ''grant_type=client_credentials'')
                [(''Content-Type'', ''application/x-www-form-urlencoded''),
                 (''Authorization'', ''Basic '' @ encodedCredentials)] of
           ((body, Some err), w1) \<Rightarrow> ((None, Some err), w1)
         | ((body, None), w1) \<Rightarrow>
             (case Unmarshal_Token env body of
                Inl e \<Rightarrow> ((None, Some (DecodingBody e)), w1)
              | Inr token \<Rightarrow> ((Some token, None), w1)))"

section \<open>The pipeline\<close>

text \<open>
  How \<open>main\<close> ends: \<open>os.Exit\<close> with a status, a normal return, or a run-time panic
  (\<open>args[1]\<close> on an empty argument vector, a \<open>nil\<close> result dereferenced).
  \<open>log.Println\<close> appends its operands, separated by blanks, to \<open>logged\<close>; the time
  stamp the logger puts in front is left out.
\<close>

datatype ending = Exit int | Returned | Panic

definition log_Println :: "string \<Rightarrow> world \<Rightarrow> world" where
  "log_Println s w = w\<lparr>logged := logged w @ [s @ [CHR 0x0A]]\<rparr>"

definition url_line :: "nat \<Rightarrow> PlaybackURL \<Rightarrow> string" where
  "url_line i url = [CHR 0x0A] @ ''VOD URL['' @ Itoa (int i) @ '']: '' @ URL url @ [CHR 0x0A]"

fun print_urls :: "nat \<Rightarrow> PlaybackURL list \<Rightarrow> world \<Rightarrow> world" where
  "print_urls i [] w = w"
| "print_urls i (url # rest) w = print_urls (Suc i) rest (Printf (url_line i url) w)"

definition main :: "env \<Rightarrow> world \<Rightarrow> ending \<times> world" where
  "main env w =
     (case os_Args env of
        [] \<Rightarrow> (Panic, w)
      | [program] \<Rightarrow> (Exit 1, Printf (''Usage: ./vodurls <PLAYBACK_URL>'' @ [CHR 0x0A]) w)
      | program # playbackURL # _ \<Rightarrow>
        (case godotenv_Load env of
           Some err \<Rightarrow> (Exit 1, log_Println (''error loading .env '' @ err) w)
         | None \<Rightarrow>
        (let clientID = os_Getenv env ''CLIENT_ID'';
             clientSecret = os_Getenv env ''CLIENT_SECRET''
         in
         if clientID = [] \<or> clientSecret = []
         then (Exit 1, log_Println ''client credentials missing'' w)
         else
        (case generateToken env w clientID clientSecret of
           ((_, Some err), w1) \<Rightarrow>
             (Exit 1, log_Println (''error generating access token: '' @ Error err) w1)
         | ((None, None), w1) \<Rightarrow> (Panic, w1)
         | ((Some token, None), w1) \<Rightarrow>
        (case getSessions env w1 (AccessToken token) playbackURL of
           ((_, _, Some err), w2) \<Rightarrow>
             (Exit 1, log_Println (''error getting sessions: '' @ Error err) w2)
         | ((None, _, None), w2) \<Rightarrow> (Panic, w2)
         | ((Some sessions, resourceID, None), w2) \<Rightarrow>
        (case generatePlaybackToken env w2 sessions (AccessToken token) of
           ((_, Some err), w3) \<Rightarrow>
             (Exit 1, log_Println (''error creating playback token: '' @ Error err) w3)
         | ((playbackTokens, None), w3) \<Rightarrow>
        (case generatePlaybackURL env w3 playbackTokens resourceID of
           ((_, Some err), w4) \<Rightarrow>
             (Exit 1, log_Println (''error generating playback urls: '' @ Error err) w4)
         | ((playbackURLs, None), w4) \<Rightarrow>
             (Returned, Printf [CHR 0x0A] (print_urls 0 playbackURLs w4)))))))))"

section \<open>Vocabulary of the properties\<close>

text \<open>
  The functions and predicates below are not part of the program; the properties are
  stated with them.

  \<open>eligible env k ss\<close> lists, in order, the sessions of \<open>ss\<close> that the loop's own test
  \<open>out_of_window\<close> does not skip when the first of them is compared with the \<open>k\<close>-th
  clock reading, the second with the next one, and so on: one reading per session, as the
  loop takes them.
\<close>

fun eligible :: "env \<Rightarrow> nat \<Rightarrow> Session list \<Rightarrow> Session list" where
  "eligible env k [] = []"
| "eligible env k (s # ss) =
     (if out_of_window (clock env k) s then eligible env (Suc k) ss
      else s # eligible env (Suc k) ss)"

text \<open>
  \<open>is_mint_request\<close>: \<open>r\<close> is the minting request for session \<open>s\<close>. \<open>answered\<close>: after
  the requests \<open>hist\<close>, the peer answers \<open>r\<close> with status 200 and the body \<open>body\<close>.
  \<open>minted\<close>: \<open>r\<close> is the minting request for \<open>s\<close> and token \<open>t\<close> is decoded from the 200
  answer to it. \<open>resolved\<close>: the same for a token, its resolution request and a URL.
\<close>

definition is_mint_request :: "env \<Rightarrow> string \<Rightarrow> string \<Rightarrow> Session \<Rightarrow> request \<Rightarrow> bool" where
  "is_mint_request env url token s r =
     (case json_Encode env (mint_payload s) of
        Inl e \<Rightarrow> False
      | Inr buf \<Rightarrow>
          r = \<lparr>req_method = ''POST'', req_url = url, req_payload = Some buf,
               req_header = bearer_headers token\<rparr>)"

definition answered :: "env \<Rightarrow> request list \<Rightarrow> request \<Rightarrow> string \<Rightarrow> bool" where
  "answered env hist r body =
     (case client_Do env hist r of
        Inl e \<Rightarrow> False
      | Inr resp \<Rightarrow> StatusCode resp = 200 \<and> Body resp = Inr body)"

definition minted ::
  "env \<Rightarrow> string \<Rightarrow> string \<Rightarrow> request list \<Rightarrow> Session \<Rightarrow> request \<Rightarrow> PlaybackToken \<Rightarrow> bool" where
  "minted env url token hist s r t =
     (is_mint_request env url token s r \<and>
      (case client_Do env hist r of
         Inl e \<Rightarrow> False
       | Inr resp \<Rightarrow>
           StatusCode resp = 200 \<and>
           (case Body resp of
              Inl e \<Rightarrow> False
            | Inr body \<Rightarrow> Unmarshal_PlaybackToken env body = Inr t)))"

definition resolve_request :: "string \<Rightarrow> PlaybackToken \<Rightarrow> request" where
  "resolve_request resourceID t =
     \<lparr>req_method = ''GET'', req_url = resolve_url resourceID t, req_payload = None,
      req_header = [(''Content-Type'', ''application/json'')]\<rparr>"

definition resolved ::
  "env \<Rightarrow> string \<Rightarrow> request list \<Rightarrow> PlaybackToken \<Rightarrow> request \<Rightarrow> PlaybackURL \<Rightarrow> bool" where
  "resolved env resourceID hist t r u =
     (r = resolve_request resourceID t \<and>
      (case client_Do env hist r of
         Inl e \<Rightarrow> False
       | Inr resp \<Rightarrow>
           StatusCode resp = 200 \<and>
           (case Body resp of
              Inl e \<Rightarrow> False
            | Inr body \<Rightarrow> Unmarshal_PlaybackURL env body = Inr u)))"

text \<open>
  \<open>exchange P hist xs rs ys\<close>: the items \<open>xs\<close>, the requests \<open>rs\<close> and the results
  \<open>ys\<close> have the same length, and at every position \<open>P\<close> relates the item, the request
  and the result, the request being made after \<open>hist\<close> and the requests before it.
\<close>

definition exchange ::
  "(request list \<Rightarrow> 'a \<Rightarrow> request \<Rightarrow> 'b \<Rightarrow> bool) \<Rightarrow> request list \<Rightarrow> 'a list \<Rightarrow> request list
     \<Rightarrow> 'b list \<Rightarrow> bool" where
  "exchange P hist xs rs ys =
     (length rs = length xs \<and> length ys = length xs \<and>
      (\<forall>i < length xs. P (hist @ take i rs) (xs ! i) (rs ! i) (ys ! i)))"

text \<open>
  \<open>rejection env hist r\<close> is the error that a status other than 200 in the answer to
  \<open>r\<close> stands for, when the answer arrived and its body was read.
  \<open>rejections_surface env hist reqs err\<close>: whenever one of the requests \<open>reqs\<close>, made in
  this order after \<open>hist\<close>, meets such an answer, \<open>err\<close> is that error.
\<close>

definition rejection :: "env \<Rightarrow> request list \<Rightarrow> request \<Rightarrow> error option" where
  "rejection env hist r =
     (case client_Do env hist r of
        Inl e \<Rightarrow> None
      | Inr resp \<Rightarrow>
          (case Body resp of
             Inl e \<Rightarrow> None
           | Inr body \<Rightarrow>
               if StatusCode resp \<noteq> 200 then Some (APIStatus (StatusCode resp) body)
               else None))"

definition rejections_surface ::
  "env \<Rightarrow> request list \<Rightarrow> request list \<Rightarrow> error option \<Rightarrow> bool" where
  "rejections_surface env hist reqs err =
     (\<forall>i < length reqs. \<forall>e. rejection env (hist @ take i reqs) (reqs ! i) = Some e \<longrightarrow>
        err = Some e)"

text \<open>The number that a string of decimal digits denotes.\<close>

fun decimal_value :: "string \<Rightarrow> nat" where
  "decimal_value [] = 0"
| "decimal_value (c # cs) = (of_char c - 48) * 10 ^ length cs + decimal_value cs"

text \<open>\<open>skipped env k ss\<close> lists the other sessions of \<open>ss\<close>: those that the test skips.\<close>

fun skipped :: "env \<Rightarrow> nat \<Rightarrow> Session list \<Rightarrow> Session list" where
  "skipped env k [] = []"
| "skipped env k (s # ss) =
     (if out_of_window (clock env k) s then s # skipped env (Suc k) ss
      else skipped env (Suc k) ss)"

section \<open>A scripted environment\<close>

text \<open>
  A test double for the outside world, used to run the functions on concrete inputs. The
  peer answers from a table keyed by URL and payload (404 for anything else); the clock
  stands still; the wire formats are toy ones: a mint payload is rendered as
  \<open>start-end-format\<close> and every other body is taken as the value it carries.
\<close>

definition scripted_client ::
  "((string \<times> string option) \<times> (int \<times> string)) list \<Rightarrow> request list \<Rightarrow> request
     \<Rightarrow> string + response" where
  "scripted_client table hist r =
     (case map_of table (req_url r, req_payload r) of
        None \<Rightarrow> Inr \<lparr>StatusCode = 404, Body = Inr ''not found''\<rparr>
      | Some (status, body) \<Rightarrow> Inr \<lparr>StatusCode = status, Body = Inr body\<rparr>)"

definition scripted_env ::
  "((string \<times> string option) \<times> (int \<times> string)) list \<Rightarrow> Session list \<Rightarrow> int \<Rightarrow> string list
     \<Rightarrow> env" where
  "scripted_env table ss now args =
     \<lparr>NewRequest = (\<lambda>method url. None),
      client_Do = scripted_client table,
      clock = (\<lambda>n. now),
      url_Parse = (\<lambda>u. if u = ''https://host/ResA/region/AcctB/jwt/m.m3u8''
                        then Inr ''/ResA/region/AcctB/jwt/m.m3u8''
                        else if u = ''https://host/ResA/region'' then Inr ''/ResA/region''
                        else Inl ''unknown reference''),
      base64_EncodeToString = (\<lambda>s. s),
      json_Encode =
        (\<lambda>d. Inr (data_StartTime d @ ''-'' @ data_EndTime d @ ''-'' @ data_ManifestFormat d)),
      Unmarshal_Token = (\<lambda>b. Inr \<lparr>AccessToken = b, ExpiresIn = 300\<rparr>),
      Unmarshal_Sessions =
        (\<lambda>b. if b = ''sessions'' then Inr \<lparr>Events = ss\<rparr> else Inl ''unexpected body''),
      Unmarshal_PlaybackToken = (\<lambda>b. Inr \<lparr>Token = b\<rparr>),
      Unmarshal_PlaybackURL = (\<lambda>b. Inr \<lparr>URL = b\<rparr>),
      os_Args = args,
      godotenv_Load = None,
      os_Getenv = (\<lambda>k. if k = ''CLIENT_ID'' then ''id''
                        else if k = ''CLIENT_SECRET'' then ''secret'' else [])\<rparr>"

definition world0 :: world where
  "world0 = \<lparr>sent = [], ticks = 0, out = [], logged = []\<rparr>"

text \<open>
  The specification's end-to-end example: one session of resource \<open>ResA\<close>, account
  \<open>AcctB\<close>, from 1000 to 2000, read at the instant 3000 s.
\<close>

definition example_session :: Session where
  "example_session =
     \<lparr>ID = ''s1'', ResourceID = ''ResA'', AccountID = ''AcctB'', StartTime = 1000,
      EndTime = 2000\<rparr>"

definition example_table :: "((string \<times> string option) \<times> (int \<times> string)) list" where
  "example_table =
     [((''https://oauth.brightcove.com/v4/access_token'', Some ''grant_type=client_credentials''),
       (200, ''AT'')),
      ((''https://api.live.brightcove.com/v2/accounts/AcctB/sessions/resource/ResA'', None),
       (200, ''sessions'')),
      ((''https://api.live.brightcove.com/v2/accounts/AcctB/playback/ResA/token'',
        Some ''1000-2000-hls''),
       (200, ''T1'')),
      ((''https://api.live.brightcove.com/v2/playback/ResA?pt=T1'', None),
       (200, ''https://resolved.example/1''))]"

definition example_env :: env where
  "example_env =
     scripted_env example_table [example_session] 3000000000000
       [''vodurls'', ''https://host/ResA/region/AcctB/jwt/m.m3u8'']"

text \<open>A session that is still live, and one that ended twenty days before the instant \<open>now\<close>.\<close>

definition live_session :: Session where
  "live_session =
     \<lparr>ID = ''s2'', ResourceID = ''ResA'', AccountID = ''AcctB'', StartTime = 2500, EndTime = 0\<rparr>"

definition session_ending :: "string \<Rightarrow> int \<Rightarrow> Session" where
  "session_ending name t =
     \<lparr>ID = name, ResourceID = ''ResA'', AccountID = ''AcctB'', StartTime = t - 3600,
      EndTime = t\<rparr>"

text \<open>Thirty days after the epoch; no table entry, so every request would meet a 404.\<close>

definition expired_env :: env where
  "expired_env = scripted_env [] [] 2592000000000000 []"

text \<open>
  Thirty days after the epoch, with an answer for the session that ended on day 29 and
  for its token.
\<close>

definition window_env :: env where
  "window_env =
     scripted_env
       [((''https://api.live.brightcove.com/v2/accounts/AcctB/playback/ResA/token'',
          Some ''2502000-2505600-hls''),
         (200, ''T2'')),
        ((''https://api.live.brightcove.com/v2/playback/ResA?pt=T2'', None),
         (200, ''https://resolved.example/2''))]
       [] 2592000000000000 []"


definition unreadable_env :: env where
  "unreadable_env =
     window_env\<lparr>client_Do :=
       (\<lambda>hist r. Inr \<lparr>StatusCode = 500, Body = Inl ''connection reset''\<rparr>)\<rparr>"

text \<open>
  Thirty days after the epoch, for a whole run: three sessions, the second of which ended
  on day 10, and an answer for each request of the run.
\<close>

definition order_sessions :: "Session list" where
  "order_sessions =
     [session_ending ''a'' 2505600, session_ending ''b'' 864000, session_ending ''c'' 2548800]"

definition order_env :: env where
  "order_env =
     scripted_env
       [((''https://oauth.brightcove.com/v4/access_token'', Some ''grant_type=client_credentials''),
         (200, ''AT'')),
        ((''https://api.live.brightcove.com/v2/accounts/AcctB/sessions/resource/ResA'', None),
         (200, ''sessions'')),
        ((''https://api.live.brightcove.com/v2/accounts/AcctB/playback/ResA/token'',
          Some ''2502000-2505600-hls''),
         (200, ''T2'')),
        ((''https://api.live.brightcove.com/v2/accounts/AcctB/playback/ResA/token'',
          Some ''2545200-2548800-hls''),
         (200, ''T3'')),
        ((''https://api.live.brightcove.com/v2/playback/ResA?pt=T2'', None),
         (200, ''https://resolved.example/2'')),
        ((''https://api.live.brightcove.com/v2/playback/ResA?pt=T3'', None),
         (200, ''https://resolved.example/3''))]
       order_sessions 2592000000000000
       [''vodurls'', ''https://host/ResA/region/AcctB/jwt/m.m3u8'']"

section \<open>Properties of the loops\<close>

subsection \<open>The transport\<close>

text \<open>A call of \<open>doRequest\<close> attempts at most one request and touches nothing else of the world.\<close>

lemma doRequest_result:
  "doRequest env w m u p h = ((b, e), w') \<Longrightarrow>
     (e \<noteq> None \<longrightarrow> b = []) \<and> ticks w' = ticks w \<and> out w' = out w \<and> logged w' = logged w \<and>
     (sent w' = sent w \<or>
      sent w' = sent w @ [\<lparr>req_method = m, req_url = u, req_payload = p, req_header = h\<rparr>])"
  by (auto simp: doRequest_def Let_def split: option.splits sum.splits if_splits)

lemma doRequest_ok:
  "doRequest env w m u p h = ((b, None), w') \<Longrightarrow>
     NewRequest env m u = None \<and>
     w' = w\<lparr>sent := sent w @ [\<lparr>req_method = m, req_url = u, req_payload = p, req_header = h\<rparr>]\<rparr> \<and>
     answered env (sent w) \<lparr>req_method = m, req_url = u, req_payload = p, req_header = h\<rparr> b"
  by (auto simp: doRequest_def Let_def answered_def split: option.splits sum.splits if_splits)

lemma doRequest_unreadable:
  "NewRequest env m u = None \<Longrightarrow>
   client_Do env (sent w) \<lparr>req_method = m, req_url = u, req_payload = p, req_header = h\<rparr> =
     Inr resp \<Longrightarrow>
   Body resp = Inl e \<Longrightarrow>
   fst (doRequest env w m u p h) = ([], Some (ReadingBody e))"
  by (simp add: doRequest_def)

lemma answered_no_rejection: "answered env hist r body \<Longrightarrow> rejection env hist r = None"
  by (auto simp: answered_def rejection_def split: sum.splits)

lemma rejections_surface_Nil: "rejections_surface env hist [] err"
  by (simp add: rejections_surface_def)

lemma rejections_surface_Cons:
  "rejections_surface env hist (r # rs) err =
     ((\<forall>e. rejection env hist r = Some e \<longrightarrow> err = Some e) \<and>
      rejections_surface env (hist @ [r]) rs err)"
  by (auto simp: rejections_surface_def less_Suc_eq_0_disj)

lemma rejections_surface_ok:
  "rejections_surface env hist reqs None \<Longrightarrow> rejections_surface env hist reqs err"
  by (simp add: rejections_surface_def)

lemma doRequest_rejections:
  "doRequest env w m u p h = ((b, err), w') \<Longrightarrow>
     \<exists>reqs. sent w' = sent w @ reqs \<and> rejections_surface env (sent w) reqs err"
proof (cases "NewRequest env m u")
  case (Some e)
  assume "doRequest env w m u p h = ((b, err), w')"
  with Some have "sent w' = sent w @ []"
    by (auto simp: doRequest_def)
  then show ?thesis
    using rejections_surface_Nil by blast
next
  case None
  let ?r = "\<lparr>req_method = m, req_url = u, req_payload = p, req_header = h\<rparr>"
  assume "doRequest env w m u p h = ((b, err), w')"
  with None have "sent w' = sent w @ [?r]"
    and "\<forall>e. rejection env (sent w) ?r = Some e \<longrightarrow> err = Some e"
    by (auto simp: doRequest_def Let_def rejection_def split: sum.splits if_splits)
  then have "sent w' = sent w @ [?r] \<and> rejections_surface env (sent w) [?r] err"
    by (simp add: rejections_surface_Cons rejections_surface_Nil)
  then show ?thesis by blast
qed

subsection \<open>Positional correspondence\<close>

lemma exchange_Nil: "exchange P hist [] [] []"
  by (simp add: exchange_def)

lemma exchange_Cons:
  "exchange P hist (x # xs) (r # rs) (y # ys) =
     (P hist x r y \<and> exchange P (hist @ [r]) xs rs ys)"
  by (auto simp: exchange_def less_Suc_eq_0_disj)

lemma list_all2_partner:
  "list_all2 P xs ys \<Longrightarrow> y \<in> set ys \<Longrightarrow> \<exists>x \<in> set xs. P x y"
  by (induction rule: list_all2_induct) auto

subsection \<open>The window\<close>

text \<open>
  The end time as the loop compares it: up to 9223371974719179007 it is the end time
  itself, above that it has wrapped around.
\<close>

lemma time_Unix_seconds:
  "time_Unix sec 0 =
     (if 9223371974719179007 < sec then sec - 18446744073709551616 else sec) * 1000000000"
  by (simp add: time_Unix_def Let_def)


lemma time_Unix_le: "time_Unix sec 0 \<le> sec * 1000000000"
  by (simp add: time_Unix_seconds)

lemma out_of_window_iff:
  "out_of_window now s \<longleftrightarrow> time_Unix (EndTime s) 0 < now - 14 * 86400 * 1000000000"
  by (simp add: out_of_window_def Before_def UTC_AddDate_days_def vodWindowDuration_def)


lemma out_of_window_expired:
  "EndTime s * 1000000000 < now - 14 * 86400 * 1000000000 \<Longrightarrow> out_of_window now s"
  using time_Unix_le [of "EndTime s"] by (simp add: out_of_window_iff)

lemma out_of_window_wrapped:
  "9223371974719179007 < EndTime s \<Longrightarrow>
     out_of_window now s \<longleftrightarrow>
       (EndTime s - 18446744073709551616) * 1000000000 < now - 14 * 86400 * 1000000000"
  by (simp add: out_of_window_iff time_Unix_seconds)


lemma eligible_subset: "set (eligible env k ss) \<subseteq> set ss"
  by (induction ss arbitrary: k) auto


subsection \<open>The minting loop\<close>

text \<open>The accumulator and the world change from one iteration to the next, so both are generalised in the inductions.\<close>

lemma mint_loop_ok:
  "mint_loop env url token ss acc w = ((res, None), w') \<Longrightarrow>
     \<exists>reqs new. res = acc @ new \<and> sent w' = sent w @ reqs \<and>
       ticks w' = ticks w + length ss \<and>
       exchange (minted env url token) (sent w) (eligible env (ticks w) ss) reqs new"
proof (induction ss arbitrary: acc w)
  case Nil
  then show ?case by (simp add: exchange_Nil)
next
  case (Cons s ss)
  show ?case
  proof (cases "out_of_window (clock env (ticks w)) s")
    case True
    with Cons.prems have
      "mint_loop env url token ss acc (Printf (skip_notice s) (w\<lparr>ticks := Suc (ticks w)\<rparr>)) =
         ((res, None), w')"
      by (simp add: time_Now_def)
    from Cons.IH [OF this] True show ?thesis
      by (simp add: Printf_def)
  next
    case False
    with Cons.prems obtain buf body t w2 where
      enc: "json_Encode env (mint_payload s) = Inr buf" and
      req: "doRequest env (w\<lparr>ticks := Suc (ticks w)\<rparr>) ''POST'' url (Some buf)
              (bearer_headers token) = ((body, None), w2)" and
      dec: "Unmarshal_PlaybackToken env body = Inr t" and
      rest: "mint_loop env url token ss (acc @ [t]) w2 = ((res, None), w')"
      by (auto simp: time_Now_def split: sum.splits prod.splits option.splits)
    let ?r = "\<lparr>req_method = ''POST'', req_url = url, req_payload = Some buf,
                req_header = bearer_headers token\<rparr>"
    from doRequest_ok [OF req] have
      w2: "w2 = w\<lparr>ticks := Suc (ticks w), sent := sent w @ [?r]\<rparr>" and
      ans: "answered env (sent w) ?r body"
      by simp_all
    from Cons.IH [OF rest] obtain reqs new where
      ih: "res = (acc @ [t]) @ new" "sent w' = sent w2 @ reqs"
          "ticks w' = ticks w2 + length ss"
          "exchange (minted env url token) (sent w2) (eligible env (ticks w2) ss) reqs new"
      by blast
    have m: "minted env url token (sent w) s ?r t"
      using enc ans dec
      by (auto simp: minted_def is_mint_request_def answered_def split: sum.splits)
    have "exchange (minted env url token) (sent w) (eligible env (ticks w) (s # ss))
            (?r # reqs) (t # new)"
      using False m ih(4) by (simp add: exchange_Cons w2)
    moreover have "res = acc @ (t # new)" using ih(1) by simp
    moreover have "sent w' = sent w @ (?r # reqs)" using ih(2) by (simp add: w2)
    moreover have "ticks w' = ticks w + length (s # ss)" using ih(3) by (simp add: w2)
    ultimately show ?thesis by blast
  qed
qed

lemma mint_loop_ok_out:
  "mint_loop env url token ss acc w = ((res, None), w') \<Longrightarrow>
     out w' = out w @ map skip_notice (skipped env (ticks w) ss) \<and> logged w' = logged w"
proof (induction ss arbitrary: acc w)
  case Nil
  then show ?case by simp
next
  case (Cons s ss)
  show ?case
  proof (cases "out_of_window (clock env (ticks w)) s")
    case True
    with Cons.prems have
      "mint_loop env url token ss acc (Printf (skip_notice s) (w\<lparr>ticks := Suc (ticks w)\<rparr>)) =
         ((res, None), w')"
      by (simp add: time_Now_def)
    from Cons.IH [OF this] True show ?thesis
      by (simp add: Printf_def)
  next
    case False
    with Cons.prems obtain buf body t w2 where
      req: "doRequest env (w\<lparr>ticks := Suc (ticks w)\<rparr>) ''POST'' url (Some buf)
              (bearer_headers token) = ((body, None), w2)" and
      rest: "mint_loop env url token ss (acc @ [t]) w2 = ((res, None), w')"
      by (auto simp: time_Now_def split: sum.splits prod.splits option.splits)
    from doRequest_result [OF req] have "ticks w2 = Suc (ticks w)" "out w2 = out w"
      "logged w2 = logged w"
      by simp_all
    with Cons.IH [OF rest] False show ?thesis
      by simp
  qed
qed

lemma mint_loop_error_nil:
  "mint_loop env url token ss acc w = ((res, Some e), w') \<Longrightarrow> res = []"
proof (induction ss arbitrary: acc w)
  case Nil
  then show ?case by simp
next
  case (Cons s ss)
  then show ?case
    by (auto simp: time_Now_def split: if_splits sum.splits prod.splits option.splits)
qed

lemma mint_loop_error_acc:
  "mint_loop env url token ss acc w = ((res, Some e), w') \<Longrightarrow>
     mint_loop env url token ss acc' w = ((res, Some e), w')"
proof (induction ss arbitrary: acc acc' w)
  case Nil
  then show ?case by simp
next
  case (Cons s ss)
  show ?case
  proof (cases "out_of_window (clock env (ticks w)) s")
    case True
    with Cons.prems Cons.IH show ?thesis
      by (simp add: time_Now_def)
  next
    case False
    with Cons.prems Cons.IH show ?thesis
      by (auto simp: time_Now_def split: sum.splits prod.splits option.splits)
  qed
qed

lemma mint_loop_append_ok:
  "mint_loop env url token ss1 acc w = ((ts, None), w1) \<Longrightarrow>
     mint_loop env url token (ss1 @ ss2) acc w = mint_loop env url token ss2 ts w1"
proof (induction ss1 arbitrary: acc w)
  case Nil
  then show ?case by simp
next
  case (Cons s ss)
  then show ?case
    by (auto simp: time_Now_def split: if_splits sum.splits prod.splits option.splits)
qed

lemma mint_loop_sent_prefix:
  "mint_loop env url token ss acc w = (r, w') \<Longrightarrow>
     \<exists>reqs n. sent w' = sent w @ reqs \<and>
       list_all2 (is_mint_request env url token) (take n (eligible env (ticks w) ss)) reqs"
proof (induction ss arbitrary: acc w)
  case Nil
  then show ?case by simp
next
  case (Cons s ss)
  show ?case
  proof (cases "out_of_window (clock env (ticks w)) s")
    case True
    with Cons.prems have
      "mint_loop env url token ss acc (Printf (skip_notice s) (w\<lparr>ticks := Suc (ticks w)\<rparr>)) =
         (r, w')"
      by (simp add: time_Now_def)
    from Cons.IH [OF this] True show ?thesis
      by (simp add: Printf_def)
  next
    case False
    note win = this
    show ?thesis
    proof (cases "json_Encode env (mint_payload s)")
      case (Inl e)
      with win Cons.prems have "sent w' = sent w @ []"
        by (auto simp: time_Now_def)
      moreover have
        "list_all2 (is_mint_request env url token) (take 0 (eligible env (ticks w) (s # ss))) []"
        by simp
      ultimately show ?thesis by blast
    next
      case (Inr buf)
      let ?r = "\<lparr>req_method = ''POST'', req_url = url, req_payload = Some buf,
                  req_header = bearer_headers token\<rparr>"
      let ?w1 = "w\<lparr>ticks := Suc (ticks w)\<rparr>"
      obtain body err w2 where
        req: "doRequest env ?w1 ''POST'' url (Some buf) (bearer_headers token) =
                ((body, err), w2)"
        by (metis prod.exhaust)
      from doRequest_result [OF req] have
        tk: "ticks w2 = Suc (ticks w)" and
        snt: "sent w2 = sent w \<or> sent w2 = sent w @ [?r]"
        by simp_all
      have isr: "is_mint_request env url token s ?r"
        using Inr by (simp add: is_mint_request_def)
      show ?thesis
      proof (cases "\<exists>t. err = None \<and> Unmarshal_PlaybackToken env body = Inr t")
        case True
        then obtain t where
          ok: "err = None" "Unmarshal_PlaybackToken env body = Inr t"
          by blast
        with win Inr req Cons.prems have
          rest: "mint_loop env url token ss (acc @ [t]) w2 = (r, w')"
          by (simp add: time_Now_def)
        from doRequest_ok [OF req [unfolded ok(1)]] have s2: "sent w2 = sent w @ [?r]"
          by simp
        from Cons.IH [OF rest] obtain reqs n where
          ih: "sent w' = sent w2 @ reqs"
              "list_all2 (is_mint_request env url token) (take n (eligible env (ticks w2) ss)) reqs"
          by blast
        have "sent w' = sent w @ (?r # reqs)" using ih(1) s2 by simp
        moreover have
          "list_all2 (is_mint_request env url token)
             (take (Suc n) (eligible env (ticks w) (s # ss))) (?r # reqs)"
          using win isr ih(2) tk by simp
        ultimately show ?thesis by blast
      next
        case False
        with win Inr req Cons.prems have "w' = w2"
          by (auto simp: time_Now_def split: option.splits sum.splits)
        from snt show ?thesis
        proof (elim disjE)
          assume "sent w2 = sent w"
          then have "sent w' = sent w @ []" using \<open>w' = w2\<close> by simp
          moreover have
            "list_all2 (is_mint_request env url token)
               (take 0 (eligible env (ticks w) (s # ss))) []"
            by simp
          ultimately show ?thesis by blast
        next
          assume "sent w2 = sent w @ [?r]"
          then have "sent w' = sent w @ [?r]" using \<open>w' = w2\<close> by simp
          moreover have
            "list_all2 (is_mint_request env url token)
               (take (Suc 0) (eligible env (ticks w) (s # ss))) [?r]"
            using win isr by simp
          ultimately show ?thesis by blast
        qed
      qed
    qed
  qed
qed

lemma mint_loop_all_skipped:
  "\<forall>i < length ss. out_of_window (clock env (k + i)) (ss ! i) \<Longrightarrow> ticks w = k \<Longrightarrow>
     mint_loop env url token ss acc w =
       ((acc, None), w\<lparr>ticks := k + length ss, out := out w @ map skip_notice ss\<rparr>)"
proof (induction ss arbitrary: w k)
  case Nil
  then show ?case by simp
next
  case (Cons s ss)
  from Cons.prems have hd: "out_of_window (clock env k) s"
    by auto
  from Cons.prems have tl: "\<forall>i < length ss. out_of_window (clock env (Suc k + i)) (ss ! i)"
    by auto
  have "ticks (Printf (skip_notice s) (w\<lparr>ticks := Suc (ticks w)\<rparr>)) = Suc k"
    using Cons.prems by (simp add: Printf_def)
  from Cons.IH [OF tl this] hd Cons.prems(2) show ?case
    by (simp add: time_Now_def Printf_def)
qed

lemma mint_loop_rejections:
  "mint_loop env url token ss acc w = ((res, err), w') \<Longrightarrow>
     \<exists>reqs. sent w' = sent w @ reqs \<and> rejections_surface env (sent w) reqs err"
proof (induction ss arbitrary: acc w)
  case Nil
  then have "sent w' = sent w @ []" by simp
  then show ?case using rejections_surface_Nil by blast
next
  case (Cons s ss)
  show ?case
  proof (cases "out_of_window (clock env (ticks w)) s")
    case True
    with Cons.prems have
      "mint_loop env url token ss acc (Printf (skip_notice s) (w\<lparr>ticks := Suc (ticks w)\<rparr>)) =
         ((res, err), w')"
      by (simp add: time_Now_def)
    from Cons.IH [OF this] show ?thesis
      by (simp add: Printf_def)
  next
    case False
    note win = this
    show ?thesis
    proof (cases "json_Encode env (mint_payload s)")
      case (Inl e)
      with win Cons.prems have "sent w' = sent w @ []"
        by (auto simp: time_Now_def)
      then show ?thesis using rejections_surface_Nil by blast
    next
      case (Inr buf)
      let ?w1 = "w\<lparr>ticks := Suc (ticks w)\<rparr>"
      obtain body e w2 where
        req: "doRequest env ?w1 ''POST'' url (Some buf) (bearer_headers token) =
                ((body, e), w2)"
        by (metis prod.exhaust)
      show ?thesis
      proof (cases "\<exists>t. e = None \<and> Unmarshal_PlaybackToken env body = Inr t")
        case True
        then obtain t where
          ok: "e = None" "Unmarshal_PlaybackToken env body = Inr t"
          by blast
        with win Inr req Cons.prems have
          rest: "mint_loop env url token ss (acc @ [t]) w2 = ((res, err), w')"
          by (simp add: time_Now_def)
        let ?r = "\<lparr>req_method = ''POST'', req_url = url, req_payload = Some buf,
                    req_header = bearer_headers token\<rparr>"
        from doRequest_ok [OF req [unfolded ok(1)]] have
          s2: "sent w2 = sent w @ [?r]" and ans: "answered env (sent w) ?r body"
          by simp_all
        from Cons.IH [OF rest] obtain reqs where
          ih: "sent w' = sent w2 @ reqs" "rejections_surface env (sent w2) reqs err"
          by blast
        have "sent w' = sent w @ (?r # reqs)" using ih(1) s2 by simp
        moreover have "rejections_surface env (sent w) (?r # reqs) err"
          using ih(2) s2 answered_no_rejection [OF ans]
          by (simp add: rejections_surface_Cons)
        ultimately show ?thesis by blast
      next
        case False
        with win Inr req Cons.prems have "w' = w2 \<and> (e \<noteq> None \<longrightarrow> err = e)"
          by (auto simp: time_Now_def split: option.splits sum.splits)
        moreover from doRequest_rejections [OF req] obtain reqs where
          "sent w2 = sent w @ reqs" "rejections_surface env (sent w) reqs e"
          by auto
        moreover have "e = None \<Longrightarrow> rejections_surface env (sent w) reqs e \<Longrightarrow>
                         rejections_surface env (sent w) reqs err"
          by (simp add: rejections_surface_def)
        ultimately show ?thesis by (cases e) auto
      qed
    qed
  qed
qed

lemma generatePlaybackToken_ok:
  assumes "generatePlaybackToken env w sessions token = ((toks, None), w')"
  shows "\<exists>first rest reqs. Events sessions = first # rest \<and> sent w' = sent w @ reqs \<and>
           exchange (minted env (mint_url first) token) (sent w)
             (eligible env (ticks w) (Events sessions)) reqs toks"
proof (cases "Events sessions")
  case Nil
  with assms show ?thesis by (simp add: generatePlaybackToken_def)
next
  case (Cons first rest)
  with assms have "mint_loop env (mint_url first) token (Events sessions) [] w =
                     ((toks, None), w')"
    by (auto simp: generatePlaybackToken_def simp del: mint_loop.simps
          split: option.splits if_splits prod.splits)
  from mint_loop_ok [OF this] Cons show ?thesis
    by auto
qed

lemma generatePlaybackToken_window:
  assumes "Events sessions = first # rest"
    and "generatePlaybackToken env w sessions token = ((toks, err), w')"
  shows "\<exists>reqs n. sent w' = sent w @ reqs \<and>
           list_all2 (is_mint_request env (mint_url first) token)
             (take n (eligible env (ticks w) (Events sessions))) reqs \<and>
           (err = None \<longrightarrow>
              exchange (minted env (mint_url first) token) (sent w)
                (eligible env (ticks w) (Events sessions)) reqs toks \<and>
              out w' = out w @ map skip_notice (skipped env (ticks w) (Events sessions)))"
proof (cases "find (\<lambda>s. EndTime s = 0) (Events sessions)")
  case (Some live)
  with assms have "sent w' = sent w @ []" "err \<noteq> None"
    by (auto simp: generatePlaybackToken_def)
  moreover have
    "list_all2 (is_mint_request env (mint_url first) token)
       (take 0 (eligible env (ticks w) (Events sessions))) []"
    by simp
  ultimately show ?thesis by blast
next
  case None
  obtain ts e w1 where
    loop: "mint_loop env (mint_url first) token (Events sessions) [] w = ((ts, e), w1)"
    by (metis prod.exhaust)
  with None assms have w1: "w1 = w'"
    by (auto simp: generatePlaybackToken_def simp del: mint_loop.simps
          split: option.splits if_splits)
  from mint_loop_sent_prefix [OF loop] obtain reqs n where
    pre: "sent w1 = sent w @ reqs"
         "list_all2 (is_mint_request env (mint_url first) token)
            (take n (eligible env (ticks w) (Events sessions))) reqs"
    by blast
  show ?thesis
  proof (cases err)
    case (Some x)
    with pre w1 show ?thesis by auto
  next
    case noerr: None
    with None loop assms have "e = None" "ts = toks"
      by (auto simp: generatePlaybackToken_def simp del: mint_loop.simps
            split: option.splits if_splits)
    with loop have ok: "mint_loop env (mint_url first) token (Events sessions) [] w =
                      ((toks, None), w1)"
      by simp
    from mint_loop_ok [OF ok] obtain reqs' where
      ex: "sent w1 = sent w @ reqs'"
          "exchange (minted env (mint_url first) token) (sent w)
             (eligible env (ticks w) (Events sessions)) reqs' toks"
      by auto
    with pre(1) have "reqs' = reqs" by simp
    moreover from mint_loop_ok_out [OF ok] have
      "out w1 = out w @ map skip_notice (skipped env (ticks w) (Events sessions))"
      by simp
    ultimately show ?thesis
      using ex pre w1 by blast
  qed
qed

lemma generatePlaybackToken_rejections:
  assumes "generatePlaybackToken env w sessions token = ((toks, err), w')"
  shows "\<exists>reqs. sent w' = sent w @ reqs \<and> rejections_surface env (sent w) reqs err"
proof (cases "\<exists>first rest. Events sessions = first # rest \<and>
                 find (\<lambda>s. EndTime s = 0) (Events sessions) = None")
  case False
  with assms have "sent w' = sent w @ []"
    by (auto simp: generatePlaybackToken_def simp del: mint_loop.simps
          split: list.splits option.splits)
  then show ?thesis using rejections_surface_Nil by blast
next
  case True
  then obtain first rest where
    ev: "Events sessions = first # rest" "find (\<lambda>s. EndTime s = 0) (Events sessions) = None"
    by blast
  obtain ts e w1 where
    loop: "mint_loop env (mint_url first) token (Events sessions) [] w = ((ts, e), w1)"
    by (metis prod.exhaust)
  with assms ev have "w' = w1 \<and> (e \<noteq> None \<longrightarrow> err = e)"
    by (auto simp: generatePlaybackToken_def simp del: mint_loop.simps
          split: option.splits if_splits)
  moreover from mint_loop_rejections [OF loop] obtain reqs where
    "sent w1 = sent w @ reqs" "rejections_surface env (sent w) reqs e"
    by auto
  ultimately show ?thesis
    by (cases e) (auto intro: rejections_surface_ok)
qed

subsection \<open>The resolution loop\<close>

lemma resolve_loop_ok:
  "resolve_loop env rid ts acc w = ((res, None), w') \<Longrightarrow>
     \<exists>reqs new. res = acc @ new \<and> w' = w\<lparr>sent := sent w @ reqs\<rparr> \<and>
       exchange (resolved env rid) (sent w) ts reqs new"
proof (induction ts arbitrary: acc w)
  case Nil
  then show ?case by (auto simp: exchange_Nil intro!: exI [of _ "[]"])
next
  case (Cons t ts)
  let ?r = "resolve_request rid t"
  from Cons.prems obtain body u w1 where
    req: "doRequest env w ''GET'' (resolve_url rid t) None
            [(''Content-Type'', ''application/json'')] = ((body, None), w1)" and
    dec: "Unmarshal_PlaybackURL env body = Inr u" and
    rest: "resolve_loop env rid ts (acc @ [u]) w1 = ((res, None), w')"
    by (auto split: sum.splits prod.splits option.splits)
  from doRequest_ok [OF req] have
    w1: "w1 = w\<lparr>sent := sent w @ [?r]\<rparr>" and
    ans: "answered env (sent w) ?r body"
    by (simp_all add: resolve_request_def)
  from Cons.IH [OF rest] obtain reqs new where
    ih: "res = (acc @ [u]) @ new" "w' = w1\<lparr>sent := sent w1 @ reqs\<rparr>"
        "exchange (resolved env rid) (sent w1) ts reqs new"
    by blast
  have m: "resolved env rid (sent w) t ?r u"
    using ans dec by (auto simp: resolved_def answered_def split: sum.splits)
  have "exchange (resolved env rid) (sent w) (t # ts) (?r # reqs) (u # new)"
    using m ih(3) by (simp add: exchange_Cons w1)
  moreover have "res = acc @ (u # new)" using ih(1) by simp
  moreover have "w' = w\<lparr>sent := sent w @ (?r # reqs)\<rparr>" using ih(2) by (simp add: w1)
  ultimately show ?case by blast
qed

lemma resolve_loop_error_nil:
  "resolve_loop env rid ts acc w = ((res, Some e), w') \<Longrightarrow> res = []"
proof (induction ts arbitrary: acc w)
  case Nil
  then show ?case by simp
next
  case (Cons t ts)
  then show ?case
    by (auto split: sum.splits prod.splits option.splits)
qed

lemma resolve_loop_error_acc:
  "resolve_loop env rid ts acc w = ((res, Some e), w') \<Longrightarrow>
     resolve_loop env rid ts acc' w = ((res, Some e), w')"
proof (induction ts arbitrary: acc acc' w)
  case Nil
  then show ?case by simp
next
  case (Cons t ts)
  then show ?case
    by (auto split: sum.splits prod.splits option.splits)
qed

lemma resolve_loop_append_ok:
  "resolve_loop env rid ts1 acc w = ((us, None), w1) \<Longrightarrow>
     resolve_loop env rid (ts1 @ ts2) acc w = resolve_loop env rid ts2 us w1"
proof (induction ts1 arbitrary: acc w)
  case Nil
  then show ?case by simp
next
  case (Cons t ts)
  then show ?case
    by (auto split: sum.splits prod.splits option.splits)
qed

lemma resolve_loop_rejections:
  "resolve_loop env rid ts acc w = ((res, err), w') \<Longrightarrow>
     \<exists>reqs. sent w' = sent w @ reqs \<and> rejections_surface env (sent w) reqs err"
proof (induction ts arbitrary: acc w)
  case Nil
  then have "sent w' = sent w @ []" by simp
  then show ?case using rejections_surface_Nil by blast
next
  case (Cons t ts)
  obtain body e w2 where
    req: "doRequest env w ''GET'' (resolve_url rid t) None
            [(''Content-Type'', ''application/json'')] = ((body, e), w2)"
    by (metis prod.exhaust)
  show ?case
  proof (cases "\<exists>u. e = None \<and> Unmarshal_PlaybackURL env body = Inr u")
    case True
    then obtain u where
      ok: "e = None" "Unmarshal_PlaybackURL env body = Inr u"
      by blast
    with req Cons.prems have
      rest: "resolve_loop env rid ts (acc @ [u]) w2 = ((res, err), w')"
      by simp
    let ?r = "\<lparr>req_method = ''GET'', req_url = resolve_url rid t, req_payload = None,
                req_header = [(''Content-Type'', ''application/json'')]\<rparr>"
    from doRequest_ok [OF req [unfolded ok(1)]] have
      s2: "sent w2 = sent w @ [?r]" and ans: "answered env (sent w) ?r body"
      by simp_all
    from Cons.IH [OF rest] obtain reqs where
      ih: "sent w' = sent w2 @ reqs" "rejections_surface env (sent w2) reqs err"
      by blast
    have "sent w' = sent w @ (?r # reqs)" using ih(1) s2 by simp
    moreover have "rejections_surface env (sent w) (?r # reqs) err"
      using ih(2) s2 answered_no_rejection [OF ans]
      by (simp add: rejections_surface_Cons)
    ultimately show ?thesis by blast
  next
    case False
    with req Cons.prems have "w' = w2 \<and> (e \<noteq> None \<longrightarrow> err = e)"
      by (auto split: option.splits sum.splits)
    moreover from doRequest_rejections [OF req] obtain reqs where
      "sent w2 = sent w @ reqs" "rejections_surface env (sent w) reqs e"
      by auto
    moreover have "e = None \<Longrightarrow> rejections_surface env (sent w) reqs e \<Longrightarrow>
                     rejections_surface env (sent w) reqs err"
      by (simp add: rejections_surface_def)
    ultimately show ?thesis by (cases e) auto
  qed
qed

subsection \<open>The other stages\<close>

lemma split_acc_length: "length (split_acc sep acc s) = Suc (count_list s sep)"
  by (induction s arbitrary: acc) auto

lemma strings_Split_length: "length (strings_Split s sep) = Suc (count_list s sep)"
  by (simp add: strings_Split_def split_acc_length)

lemma generateToken_rejections:
  assumes "generateToken env w clientID clientSecret = ((tok, err), w')"
  shows "\<exists>reqs. sent w' = sent w @ reqs \<and> rejections_surface env (sent w) reqs err"
proof -
  let ?h = "[(''Content-Type'', ''application/x-www-form-urlencoded''),
             (''Authorization'',
              ''Basic '' @ base64_EncodeToString env (clientID @ '':'' @ clientSecret))]"
  obtain body e w1 where
    req: "doRequest env w ''POST'' ''https://oauth.brightcove.com/v4/access_token''
            (Some ''grant_type=client_credentials'') ?h = ((body, e), w1)"
    by (metis prod.exhaust)
  with assms have "w' = w1 \<and> (e \<noteq> None \<longrightarrow> err = e)"
    by (auto simp: generateToken_def Let_def split: option.splits sum.splits)
  moreover from doRequest_rejections [OF req] obtain reqs where
    "sent w1 = sent w @ reqs" "rejections_surface env (sent w) reqs e"
    by auto
  ultimately show ?thesis
    by (cases e) (auto intro: rejections_surface_ok)
qed

lemma getSessions_rejections:
  assumes "getSessions env w token playbackURL = ((ss, rid, err), w')"
  shows "\<exists>reqs. sent w' = sent w @ reqs \<and> rejections_surface env (sent w) reqs err"
proof (cases "\<exists>path. url_Parse env playbackURL = Inr path \<and>
                 \<not> length (strings_Split path CHR ''/'') < 6")
  case False
  with assms have "sent w' = sent w @ []"
    by (auto simp: getSessions_def Let_def split: sum.splits if_splits)
  then show ?thesis using rejections_surface_Nil by blast
next
  case True
  then obtain path where
    p: "url_Parse env playbackURL = Inr path" "\<not> length (strings_Split path CHR ''/'') < 6"
    by blast
  let ?parts = "strings_Split path CHR ''/''"
  obtain body e w1 where
    req: "doRequest env w ''GET'' (sessions_url (?parts ! 3) (?parts ! 1)) None
            (bearer_headers token) = ((body, e), w1)"
    by (metis prod.exhaust)
  with assms p have "w' = w1 \<and> (e \<noteq> None \<longrightarrow> err = e)"
    by (auto simp: getSessions_def Let_def split: option.splits sum.splits)
  moreover from doRequest_rejections [OF req] obtain reqs where
    "sent w1 = sent w @ reqs" "rejections_surface env (sent w) reqs e"
    by auto
  ultimately show ?thesis
    by (cases e) (auto intro: rejections_surface_ok)
qed

lemma print_urls_out:
  "print_urls k us w = w\<lparr>out := out w @ map (\<lambda>i. url_line (k + i) (us ! i)) [0 ..< length us]\<rparr>"
proof (induction us arbitrary: k w)
  case Nil
  then show ?case by simp
next
  case (Cons u us)
  have "[0 ..< length (u # us)] = 0 # map Suc [0 ..< length us]"
    by (simp add: map_Suc_upt upt_conv_Cons del: upt_Suc)
  then have "map (\<lambda>i. url_line (k + i) ((u # us) ! i)) [0 ..< length (u # us)] =
          url_line k u # map (\<lambda>i. url_line (Suc k + i) (us ! i)) [0 ..< length us]"
    by (simp add: o_def del: upt_Suc)
  with Cons.IH [of "Suc k"] show ?case
    by (simp add: Printf_def del: upt_Suc)
qed

lemma main_Returned:
  assumes "main env w = (Returned, w')"
  shows "\<exists>token w1 sessions resourceID w2 toks w3 urls w4.
           generateToken env w (os_Getenv env ''CLIENT_ID'') (os_Getenv env ''CLIENT_SECRET'') =
             ((Some token, None), w1) \<and>
           getSessions env w1 (AccessToken token) (os_Args env ! 1) =
             ((Some sessions, resourceID, None), w2) \<and>
           generatePlaybackToken env w2 sessions (AccessToken token) = ((toks, None), w3) \<and>
           generatePlaybackURL env w3 toks resourceID = ((urls, None), w4) \<and>
           w' = Printf [CHR 0x0A] (print_urls 0 urls w4)"
  using assms
  by (auto simp: main_def Let_def
        split: if_splits list.splits option.splits prod.splits)

subsection \<open>Decimal rendering\<close>

lemma digit_value: "n < 10 \<Longrightarrow> of_char (''0123456789'' ! n) = (48 + n :: nat)"
proof -
  assume "n < 10"
  have "list_all (\<lambda>k. of_char (''0123456789'' ! k) = (48 + k :: nat)) [0 ..< 10]"
    by code_simp
  with \<open>n < 10\<close> show ?thesis
    by (simp add: list_all_iff)
qed

lemma decimal_value_append:
  "decimal_value (xs @ [c]) = decimal_value xs * 10 + (of_char c - 48)"
  by (induction xs) (simp_all add: algebra_simps)

lemma decimal_value_nat_digits: "decimal_value (nat_digits n) = n"
proof (induction n rule: nat_digits.induct)
  case (1 n)
  show ?case
  proof (cases "n < 10")
    case True
    then show ?thesis
      by (subst nat_digits.simps) (simp add: digit_value)
  next
    case False
    with 1 have "decimal_value (nat_digits (n div 10)) = n div 10" by simp
    with False show ?thesis
      by (subst nat_digits.simps) (simp add: decimal_value_append digit_value)
  qed
qed

lemma nat_digits_are_digits: "set (nat_digits n) \<subseteq> set ''0123456789''"
proof (induction n rule: nat_digits.induct)
  case (1 n)
  show ?case
  proof (cases "n < 10")
    case True
    then have "''0123456789'' ! n \<in> set ''0123456789''"
      by (intro nth_mem) simp
    with True show ?thesis
      by (subst nat_digits.simps) simp
  next
    case False
    have "n mod 10 < 10" by simp
    then have "''0123456789'' ! (n mod 10) \<in> set ''0123456789''"
      by (intro nth_mem) simp
    with False 1 show ?thesis
      by (subst nat_digits.simps) simp
  qed
qed

subsection \<open>Runs in the scripted environment\<close>

text \<open>Each of these is the program evaluated on a concrete input.\<close>

lemma example_mint:
  "generatePlaybackToken example_env world0 \<lparr>Events = [example_session]\<rparr> ''AT'' =
     (([\<lparr>Token = ''T1''\<rparr>], None),
      \<lparr>sent = [\<lparr>req_method = ''POST'',
                 req_url = ''https://api.live.brightcove.com/v2/accounts/AcctB/playback/ResA/token'',
                 req_payload = Some ''1000-2000-hls'',
                 req_header = [(''Content-Type'', ''application/json''),
                               (''Authorization'', ''Bearer AT'')]\<rparr>],
       ticks = 1, out = [], logged = []\<rparr>)"
  by (simp add: generatePlaybackToken_def example_env_def scripted_env_def example_session_def
        world0_def time_Now_def out_of_window_def Before_def time_Unix_def Let_def UTC_AddDate_days_def
        vodWindowDuration_def mint_payload_def Itoa_def nat_digits.simps manifestFormatHLS_def
        doRequest_def mint_url_def bearer_headers_def scripted_client_def example_table_def)

lemma example_sessions:
  "getSessions example_env world0 ''AT'' ''https://host/ResA/region/AcctB/jwt/m.m3u8'' =
     ((Some \<lparr>Events = [example_session]\<rparr>, ''ResA'', None),
      \<lparr>sent = [\<lparr>req_method = ''GET'',
                 req_url = ''https://api.live.brightcove.com/v2/accounts/AcctB/sessions/resource/ResA'',
                 req_payload = None,
                 req_header = [(''Content-Type'', ''application/json''),
                               (''Authorization'', ''Bearer AT'')]\<rparr>],
       ticks = 0, out = [], logged = []\<rparr>)"
  by (simp add: getSessions_def example_env_def scripted_env_def strings_Split_def world0_def
        sessions_url_def bearer_headers_def doRequest_def scripted_client_def example_table_def)

lemma example_main:
  "main example_env world0 =
     (Returned,
      \<lparr>sent =
         [\<lparr>req_method = ''POST'', req_url = ''https://oauth.brightcove.com/v4/access_token'',
           req_payload = Some ''grant_type=client_credentials'',
           req_header = [(''Content-Type'', ''application/x-www-form-urlencoded''),
                         (''Authorization'', ''Basic id:secret'')]\<rparr>,
          \<lparr>req_method = ''GET'',
           req_url = ''https://api.live.brightcove.com/v2/accounts/AcctB/sessions/resource/ResA'',
           req_payload = None,
           req_header = [(''Content-Type'', ''application/json''),
                         (''Authorization'', ''Bearer AT'')]\<rparr>,
          \<lparr>req_method = ''POST'',
           req_url = ''https://api.live.brightcove.com/v2/accounts/AcctB/playback/ResA/token'',
           req_payload = Some ''1000-2000-hls'',
           req_header = [(''Content-Type'', ''application/json''),
                         (''Authorization'', ''Bearer AT'')]\<rparr>,
          \<lparr>req_method = ''GET'',
           req_url = ''https://api.live.brightcove.com/v2/playback/ResA?pt=T1'',
           req_payload = None,
           req_header = [(''Content-Type'', ''application/json'')]\<rparr>],
       ticks = 1,
       out = [[CHR 0x0A] @ ''VOD URL[0]: https://resolved.example/1'' @ [CHR 0x0A], [CHR 0x0A]],
       logged = []\<rparr>)"
  by (simp add: main_def example_env_def scripted_env_def world0_def generateToken_def
        getSessions_def strings_Split_def sessions_url_def bearer_headers_def doRequest_def
        scripted_client_def example_table_def generatePlaybackToken_def example_session_def
        time_Now_def out_of_window_def Before_def time_Unix_def Let_def UTC_AddDate_days_def
        vodWindowDuration_def mint_payload_def Itoa_def nat_digits.simps manifestFormatHLS_def
        mint_url_def generatePlaybackURL_def resolve_url_def Printf_def url_line_def)


lemma window_mint_one:
  "mint_loop window_env (mint_url (session_ending ''s2'' 2505600)) ''AT''
     [session_ending ''s2'' 2505600] [] world0 =
     (([\<lparr>Token = ''T2''\<rparr>], None),
      \<lparr>sent = [\<lparr>req_method = ''POST'',
                 req_url = ''https://api.live.brightcove.com/v2/accounts/AcctB/playback/ResA/token'',
                 req_payload = Some ''2502000-2505600-hls'',
                 req_header = [(''Content-Type'', ''application/json''),
                               (''Authorization'', ''Bearer AT'')]\<rparr>],
       ticks = 1, out = [], logged = []\<rparr>)"
  by (simp add: window_env_def scripted_env_def session_ending_def
        world0_def time_Now_def out_of_window_def Before_def time_Unix_def Let_def UTC_AddDate_days_def
        vodWindowDuration_def mint_payload_def Itoa_def nat_digits.simps manifestFormatHLS_def
        doRequest_def mint_url_def bearer_headers_def scripted_client_def)

lemma window_mint_fails:
  "mint_loop window_env (mint_url (session_ending ''s2'' 2505600)) ''AT''
     [session_ending ''s3'' 2505700] []
     \<lparr>sent = [\<lparr>req_method = ''POST'',
                req_url = ''https://api.live.brightcove.com/v2/accounts/AcctB/playback/ResA/token'',
                req_payload = Some ''2502000-2505600-hls'',
                req_header = [(''Content-Type'', ''application/json''),
                              (''Authorization'', ''Bearer AT'')]\<rparr>],
      ticks = 1, out = [], logged = []\<rparr> =
     (([], Some (APIStatus 404 ''not found'')),
      \<lparr>sent = [\<lparr>req_method = ''POST'',
                 req_url = ''https://api.live.brightcove.com/v2/accounts/AcctB/playback/ResA/token'',
                 req_payload = Some ''2502000-2505600-hls'',
                 req_header = [(''Content-Type'', ''application/json''),
                               (''Authorization'', ''Bearer AT'')]\<rparr>,
               \<lparr>req_method = ''POST'',
                 req_url = ''https://api.live.brightcove.com/v2/accounts/AcctB/playback/ResA/token'',
                 req_payload = Some ''2502100-2505700-hls'',
                 req_header = [(''Content-Type'', ''application/json''),
                               (''Authorization'', ''Bearer AT'')]\<rparr>],
       ticks = 2, out = [], logged = []\<rparr>)"
  by (simp add: window_env_def scripted_env_def session_ending_def
        time_Now_def out_of_window_def Before_def time_Unix_def Let_def UTC_AddDate_days_def
        vodWindowDuration_def mint_payload_def Itoa_def nat_digits.simps manifestFormatHLS_def
        doRequest_def mint_url_def bearer_headers_def scripted_client_def)

lemma window_resolve_one:
  "generatePlaybackURL window_env world0 [\<lparr>Token = ''T2''\<rparr>] ''ResA'' =
     (([\<lparr>URL = ''https://resolved.example/2''\<rparr>], None),
      \<lparr>sent = [resolve_request ''ResA'' \<lparr>Token = ''T2''\<rparr>], ticks = 0, out = [], logged = []\<rparr>)"
  by (simp add: generatePlaybackURL_def window_env_def scripted_env_def world0_def
        doRequest_def resolve_url_def scripted_client_def resolve_request_def)

lemma window_resolve_fails:
  "generatePlaybackURL window_env
     \<lparr>sent = [resolve_request ''ResA'' \<lparr>Token = ''T2''\<rparr>], ticks = 0, out = [], logged = []\<rparr>
     [\<lparr>Token = ''T9''\<rparr>] ''ResA'' =
     (([], Some (APIStatus 404 ''not found'')),
      \<lparr>sent = [resolve_request ''ResA'' \<lparr>Token = ''T2''\<rparr>,
               resolve_request ''ResA'' \<lparr>Token = ''T9''\<rparr>],
       ticks = 0, out = [], logged = []\<rparr>)"
  by (simp add: generatePlaybackURL_def window_env_def scripted_env_def
        doRequest_def resolve_url_def scripted_client_def resolve_request_def)

lemma order_main:
  "main order_env world0 =
     (Returned,
      \<lparr>sent =
         [\<lparr>req_method = ''POST'', req_url = ''https://oauth.brightcove.com/v4/access_token'',
           req_payload = Some ''grant_type=client_credentials'',
           req_header = [(''Content-Type'', ''application/x-www-form-urlencoded''),
                         (''Authorization'', ''Basic id:secret'')]\<rparr>,
          \<lparr>req_method = ''GET'',
           req_url = ''https://api.live.brightcove.com/v2/accounts/AcctB/sessions/resource/ResA'',
           req_payload = None,
           req_header = [(''Content-Type'', ''application/json''),
                         (''Authorization'', ''Bearer AT'')]\<rparr>,
          \<lparr>req_method = ''POST'',
           req_url = ''https://api.live.brightcove.com/v2/accounts/AcctB/playback/ResA/token'',
           req_payload = Some ''2502000-2505600-hls'',
           req_header = [(''Content-Type'', ''application/json''),
                         (''Authorization'', ''Bearer AT'')]\<rparr>,
          \<lparr>req_method = ''POST'',
           req_url = ''https://api.live.brightcove.com/v2/accounts/AcctB/playback/ResA/token'',
           req_payload = Some ''2545200-2548800-hls'',
           req_header = [(''Content-Type'', ''application/json''),
                         (''Authorization'', ''Bearer AT'')]\<rparr>,
          \<lparr>req_method = ''GET'',
           req_url = ''https://api.live.brightcove.com/v2/playback/ResA?pt=T2'',
           req_payload = None,
           req_header = [(''Content-Type'', ''application/json'')]\<rparr>,
          \<lparr>req_method = ''GET'',
           req_url = ''https://api.live.brightcove.com/v2/playback/ResA?pt=T3'',
           req_payload = None,
           req_header = [(''Content-Type'', ''application/json'')]\<rparr>],
       ticks = 3,
       out = [skip_notice (session_ending ''b'' 864000),
              [CHR 0x0A] @ ''VOD URL[0]: https://resolved.example/2'' @ [CHR 0x0A],
              [CHR 0x0A] @ ''VOD URL[1]: https://resolved.example/3'' @ [CHR 0x0A],
              [CHR 0x0A]],
       logged = []\<rparr>)"
  by (simp add: main_def order_env_def scripted_env_def world0_def generateToken_def
        getSessions_def strings_Split_def sessions_url_def bearer_headers_def doRequest_def
        scripted_client_def order_sessions_def generatePlaybackToken_def session_ending_def
        time_Now_def out_of_window_def Before_def time_Unix_def Let_def UTC_AddDate_days_def
        vodWindowDuration_def mint_payload_def Itoa_def nat_digits.simps manifestFormatHLS_def
        mint_url_def generatePlaybackURL_def resolve_url_def Printf_def url_line_def
        skip_notice_def)


lemma unreadable_resolve:
  "generatePlaybackURL unreadable_env world0 [\<lparr>Token = ''T2''\<rparr>] ''ResA'' =
     (([], Some (ReadingBody ''connection reset'')),
      \<lparr>sent = [resolve_request ''ResA'' \<lparr>Token = ''T2''\<rparr>], ticks = 0, out = [],
       logged = []\<rparr>)"
  by (simp add: generatePlaybackURL_def unreadable_env_def window_env_def scripted_env_def
        world0_def doRequest_def resolve_url_def resolve_request_def)

section \<open>The claims\<close>

text \<open>
  C1. If any session of the list has \<open>EndTime = 0\<close>, \<open>generatePlaybackToken\<close> fails with
  the live-session error naming the resource of the first such session, whatever the end
  times of the other sessions are; the world is left as it was, so no minting request was
  made for any session.
\<close>

theorem live_session_gate:
  assumes "\<exists>s \<in> set (Events sessions). EndTime s = 0"
  shows "\<exists>live. find (\<lambda>s. EndTime s = 0) (Events sessions) = Some live \<and>
           live \<in> set (Events sessions) \<and> EndTime live = 0 \<and>
           generatePlaybackToken env w sessions token =
             (([], Some (OngoingLive (ResourceID live))), w) \<and>
           Error (OngoingLive (ResourceID live)) =
             ''resource '' @ ResourceID live @
             '' has an ongoing live session, cannot generate VOD URLs until the stream ends''"
proof -
  from assms obtain live where f: "find (\<lambda>s. EndTime s = 0) (Events sessions) = Some live"
    by (cases "find (\<lambda>s. EndTime s = 0) (Events sessions)") (auto simp: find_None_iff)
  then have m: "live \<in> set (Events sessions)" "EndTime live = 0"
    by (auto simp: find_Some_iff)
  then have "Events sessions \<noteq> []" by auto
  with f m show ?thesis
    by (auto simp: generatePlaybackToken_def split: list.splits)
qed

theorem live_session_gate_witness:
  "generatePlaybackToken example_env world0
     \<lparr>Events = [example_session, live_session, session_ending ''s3'' 5]\<rparr> ''AT'' =
     (([], Some (OngoingLive ''ResA'')), world0)"
proof -
  let ?ss = "\<lparr>Events = [example_session, live_session, session_ending ''s3'' 5]\<rparr>"
  have "\<exists>s \<in> set (Events ?ss). EndTime s = 0"
    by (simp add: live_session_def)
  from live_session_gate [OF this, of example_env world0 "''AT''"] show ?thesis
    by (simp add: example_session_def live_session_def)
qed

text \<open>
  C2. When \<open>main\<close> returns normally, the run was: \<open>generateToken\<close> gave the access token,
  \<open>getSessions\<close> with that token and the reference gave the sessions and the resource
  identifier, \<open>generatePlaybackToken\<close> on exactly those sessions gave the tokens, and
  \<open>generatePlaybackURL\<close> on exactly those tokens and that identifier gave the URLs, each
  stage starting in the world the one before it left. Order is kept from end to end: the
  minting requests and the tokens correspond one to one, in order, to the fetched sessions
  that the loop did not skip (\<open>eligible\<close>, by the loop's own test, in list order), the
  resolution requests and the URLs correspond one to one, in order, to the tokens, and the
  URLs are printed in that order with their positions. So there are as many URLs as tokens
  and as many tokens as sessions that were not skipped.
\<close>

theorem end_to_end_order:
  assumes "main env w = (Returned, w')"
  shows "\<exists>(token :: Token) w1 sessions first rest resourceID w2 toks w3 urls w4 mreqs rreqs.
           generateToken env w (os_Getenv env ''CLIENT_ID'') (os_Getenv env ''CLIENT_SECRET'') =
             ((Some token, None), w1) \<and>
           getSessions env w1 (AccessToken token) (os_Args env ! 1) =
             ((Some sessions, resourceID, None), w2) \<and>
           Events sessions = first # rest \<and>
           generatePlaybackToken env w2 sessions (AccessToken token) = ((toks, None), w3) \<and>
           generatePlaybackURL env w3 toks resourceID = ((urls, None), w4) \<and>
           sent w3 = sent w2 @ mreqs \<and>
           exchange (minted env (mint_url first) (AccessToken token)) (sent w2)
             (eligible env (ticks w2) (Events sessions)) mreqs toks \<and>
           sent w4 = sent w3 @ rreqs \<and>
           exchange (resolved env resourceID) (sent w3) toks rreqs urls \<and>
           length toks = length (eligible env (ticks w2) (Events sessions)) \<and>
           length urls = length toks \<and>
           w' = w4\<lparr>out := out w4 @ map (\<lambda>i. url_line i (urls ! i)) [0 ..< length urls] @
                                  [[CHR 0x0A]]\<rparr>"
proof -
  from main_Returned [OF assms] obtain token :: Token
    and w1 :: world and sessions resourceID w2 toks w3 urls w4 where
    g: "generateToken env w (os_Getenv env ''CLIENT_ID'') (os_Getenv env ''CLIENT_SECRET'') =
          ((Some token, None), w1)"
       "getSessions env w1 (AccessToken token) (os_Args env ! 1) =
          ((Some sessions, resourceID, None), w2)" and
    m: "generatePlaybackToken env w2 sessions (AccessToken token) = ((toks, None), w3)"
       "generatePlaybackURL env w3 toks resourceID = ((urls, None), w4)"
       "w' = Printf [CHR 0x0A] (print_urls 0 urls w4)"
    by blast
  from generatePlaybackToken_ok [OF m(1)] obtain first rest mreqs where
    t: "Events sessions = first # rest" "sent w3 = sent w2 @ mreqs"
       "exchange (minted env (mint_url first) (AccessToken token)) (sent w2)
          (eligible env (ticks w2) (Events sessions)) mreqs toks"
    by blast
  from m(2) have "resolve_loop env resourceID toks [] w3 = ((urls, None), w4)"
    by (simp add: generatePlaybackURL_def)
  from resolve_loop_ok [OF this] obtain rreqs where
    u: "sent w4 = sent w3 @ rreqs" "exchange (resolved env resourceID) (sent w3) toks rreqs urls"
    by auto
  from t(3) have l1: "length toks = length (eligible env (ticks w2) (Events sessions))"
    by (simp add: exchange_def)
  from u(2) have l2: "length urls = length toks"
    by (simp add: exchange_def)
  from m(3) have
    fin: "w' = w4\<lparr>out := out w4 @ map (\<lambda>i. url_line i (urls ! i)) [0 ..< length urls] @
                                  [[CHR 0x0A]]\<rparr>"
    by (simp add: print_urls_out Printf_def)
  show ?thesis
    by (intro exI conjI)
      (rule g(1), rule g(2), rule t(1), rule m(1), rule m(2), rule t(2), rule t(3), rule u(1),
       rule u(2), rule l1, rule l2, rule fin)
qed

theorem end_to_end_order_witness:
  "fst (main order_env world0) = Returned \<and>
   out (snd (main order_env world0)) =
     [skip_notice (session_ending ''b'' 864000),
      [CHR 0x0A] @ ''VOD URL[0]: https://resolved.example/2'' @ [CHR 0x0A],
      [CHR 0x0A] @ ''VOD URL[1]: https://resolved.example/3'' @ [CHR 0x0A],
      [CHR 0x0A]] \<and>
   (\<exists>(token :: Token) w1 sessions first rest resourceID w2 toks w3 urls w4 mreqs rreqs.
      generateToken order_env world0 (os_Getenv order_env ''CLIENT_ID'')
        (os_Getenv order_env ''CLIENT_SECRET'') = ((Some token, None), w1) \<and>
      getSessions order_env w1 (AccessToken token) (os_Args order_env ! 1) =
        ((Some sessions, resourceID, None), w2) \<and>
      Events sessions = first # rest \<and>
      generatePlaybackToken order_env w2 sessions (AccessToken token) = ((toks, None), w3) \<and>
      generatePlaybackURL order_env w3 toks resourceID = ((urls, None), w4) \<and>
      sent w3 = sent w2 @ mreqs \<and>
      exchange (minted order_env (mint_url first) (AccessToken token)) (sent w2)
        (eligible order_env (ticks w2) (Events sessions)) mreqs toks \<and>
      sent w4 = sent w3 @ rreqs \<and>
      exchange (resolved order_env resourceID) (sent w3) toks rreqs urls \<and>
      length toks = length (eligible order_env (ticks w2) (Events sessions)) \<and>
      length urls = length toks \<and>
      snd (main order_env world0) =
        w4\<lparr>out := out w4 @ map (\<lambda>i. url_line i (urls ! i)) [0 ..< length urls] @
                               [[CHR 0x0A]]\<rparr>)"
proof -
  have run: "main order_env world0 = (Returned, snd (main order_env world0))"
    by (simp add: order_main)
  have a: "fst (main order_env world0) = Returned"
    by (simp add: order_main)
  have b: "out (snd (main order_env world0)) =
     [skip_notice (session_ending ''b'' 864000),
      [CHR 0x0A] @ ''VOD URL[0]: https://resolved.example/2'' @ [CHR 0x0A],
      [CHR 0x0A] @ ''VOD URL[1]: https://resolved.example/3'' @ [CHR 0x0A],
      [CHR 0x0A]]"
    by (simp add: order_main)
  show ?thesis
    by (rule conjI [OF a conjI [OF b end_to_end_order [OF run]]])
qed




text \<open>
  C4. For a non-empty session list without a live session in which every session ended
  before the instant read for it minus 14 days, \<open>generatePlaybackToken\<close> fails with
  ``no valid sessions to continue''. The request log is unchanged: one clock reading and
  one notice per session are the only effects.
\<close>

theorem all_sessions_expired:
  assumes "Events sessions \<noteq> []"
    and "\<forall>s \<in> set (Events sessions). EndTime s \<noteq> 0"
    and "\<forall>i < length (Events sessions).
           EndTime (Events sessions ! i) * 1000000000 <
             clock env (ticks w + i) - 14 * 86400 * 1000000000"
  shows "generatePlaybackToken env w sessions token =
           (([], Some NoValidSessions),
            w\<lparr>ticks := ticks w + length (Events sessions),
              out := out w @ map skip_notice (Events sessions)\<rparr>) \<and>
         sent (snd (generatePlaybackToken env w sessions token)) = sent w \<and>
         Error NoValidSessions = ''no valid sessions to continue''"
proof -
  from assms(1) obtain first rest where ev: "Events sessions = first # rest"
    by (cases "Events sessions") auto
  from assms(2) have nolive: "find (\<lambda>s. EndTime s = 0) (Events sessions) = None"
    by (simp add: find_None_iff)
  from assms(3) have
    "\<forall>i < length (Events sessions).
       out_of_window (clock env (ticks w + i)) (Events sessions ! i)"
    by (simp add: out_of_window_expired)
  from mint_loop_all_skipped [OF this refl]
  have "mint_loop env (mint_url first) token (Events sessions) [] w =
          (([], None), w\<lparr>ticks := ticks w + length (Events sessions),
                         out := out w @ map skip_notice (Events sessions)\<rparr>)" .
  with nolive have
    "generatePlaybackToken env w sessions token =
       (([], Some NoValidSessions),
        w\<lparr>ticks := ticks w + length (Events sessions),
          out := out w @ map skip_notice (Events sessions)\<rparr>)"
    by (simp add: generatePlaybackToken_def ev)
  then show ?thesis by simp
qed

theorem all_sessions_expired_witness:
  "generatePlaybackToken expired_env world0
     \<lparr>Events = [session_ending ''a'' 1000, session_ending ''b'' 2000]\<rparr> ''AT'' =
     (([], Some NoValidSessions),
      \<lparr>sent = [], ticks = 2,
       out = [skip_notice (session_ending ''a'' 1000), skip_notice (session_ending ''b'' 2000)],
       logged = []\<rparr>)"
proof -
  let ?ss = "\<lparr>Events = [session_ending ''a'' 1000, session_ending ''b'' 2000]\<rparr>"
  have 1: "Events ?ss \<noteq> []" by simp
  have 2: "\<forall>s \<in> set (Events ?ss). EndTime s \<noteq> 0"
    by (simp add: session_ending_def)
  have 3: "\<forall>i < length (Events ?ss).
             EndTime (Events ?ss ! i) * 1000000000 <
               clock expired_env (ticks world0 + i) - 14 * 86400 * 1000000000"
    by (simp add: session_ending_def expired_env_def scripted_env_def less_Suc_eq
          numeral_2_eq_2)
  from all_sessions_expired [OF 1 2 3, of "''AT''"] show ?thesis
    by (simp add: world0_def)
qed

text \<open>
  C5. \<open>generatePlaybackToken\<close> on an empty session list fails with the error
  ``no events in session, quitting''; the world is left as it was, so no request was made
  and the empty list is not a success with zero tokens.
\<close>

theorem empty_sessions_no_events:
  "generatePlaybackToken env w \<lparr>Events = []\<rparr> token = (([], Some NoEvents), w) \<and>
   Error NoEvents = ''no events in session, quitting''"
  by (simp add: generatePlaybackToken_def)

text \<open>
  C6. The path of the reference is split at every \<open>/\<close>, so it has one segment more than
  it has slashes. With fewer than 6 segments \<open>getSessions\<close> fails with ``malformed
  playback URL provided'' and leaves the world as it was: no request is attempted. With 6
  or more it does not fail that way, its only request is the GET for the sessions of
  account \<open>segment 3\<close> and resource \<open>segment 1\<close>, and on success it returns
  \<open>segment 1\<close> as the resource identifier.
\<close>

theorem malformed_reference:
  assumes "url_Parse env playbackURL = Inr path"
    and "parts = strings_Split path CHR ''/''"
  shows "length parts = Suc (count_list path CHR ''/'') \<and>
         (length parts < 6 \<longrightarrow>
            getSessions env w token playbackURL = ((None, [], Some MalformedPlaybackURL), w) \<and>
            Error MalformedPlaybackURL = ''malformed playback URL provided'') \<and>
         (6 \<le> length parts \<longrightarrow>
            (\<forall>sessions resourceID err w'.
               getSessions env w token playbackURL = ((sessions, resourceID, err), w') \<longrightarrow>
               err \<noteq> Some MalformedPlaybackURL \<and>
               (err = None \<longrightarrow> resourceID = parts ! 1) \<and>
               sent w' =
                 (if NewRequest env ''GET''
                       (''https://api.live.brightcove.com/v2/accounts/'' @ parts ! 3 @
                        ''/sessions/resource/'' @ parts ! 1) = None
                  then sent w @
                    [\<lparr>req_method = ''GET'',
                      req_url = ''https://api.live.brightcove.com/v2/accounts/'' @ parts ! 3 @
                                ''/sessions/resource/'' @ parts ! 1,
                      req_payload = None,
                      req_header = [(''Content-Type'', ''application/json''),
                                    (''Authorization'', ''Bearer '' @ token)]\<rparr>]
                  else sent w)))"
proof (intro conjI impI allI)
  show "length parts = Suc (count_list path CHR ''/'')"
    by (simp add: assms(2) strings_Split_length)
next
  assume "length parts < 6"
  with assms show "getSessions env w token playbackURL =
                     ((None, [], Some MalformedPlaybackURL), w)"
    by (simp add: getSessions_def)
next
  show "Error MalformedPlaybackURL = ''malformed playback URL provided''"
    by simp
next
  fix sessions resourceID err w'
  assume len: "6 \<le> length parts"
    and res: "getSessions env w token playbackURL = ((sessions, resourceID, err), w')"
  from len res assms show "err \<noteq> Some MalformedPlaybackURL"
    by (auto simp: getSessions_def Let_def doRequest_def
          split: option.splits sum.splits if_splits prod.splits)
  from len res assms show "err = None \<Longrightarrow> resourceID = parts ! 1"
    by (auto simp: getSessions_def Let_def split: option.splits sum.splits prod.splits)
  from len res assms show
    "sent w' =
       (if NewRequest env ''GET''
             (''https://api.live.brightcove.com/v2/accounts/'' @ parts ! 3 @
              ''/sessions/resource/'' @ parts ! 1) = None
        then sent w @
          [\<lparr>req_method = ''GET'',
            req_url = ''https://api.live.brightcove.com/v2/accounts/'' @ parts ! 3 @
                      ''/sessions/resource/'' @ parts ! 1,
            req_payload = None,
            req_header = [(''Content-Type'', ''application/json''),
                          (''Authorization'', ''Bearer '' @ token)]\<rparr>]
        else sent w)"
    by (auto simp: getSessions_def Let_def doRequest_def sessions_url_def bearer_headers_def
          split: option.splits sum.splits if_splits prod.splits)
qed

theorem malformed_reference_witness:
  "strings_Split ''/ResA/region'' CHR ''/'' = ['''', ''ResA'', ''region''] \<and>
   getSessions example_env world0 ''AT'' ''https://host/ResA/region'' =
     ((None, [], Some MalformedPlaybackURL), world0) \<and>
   strings_Split ''/ResA/region/AcctB/jwt/m.m3u8'' CHR ''/'' =
     ['''', ''ResA'', ''region'', ''AcctB'', ''jwt'', ''m.m3u8''] \<and>
   getSessions example_env world0 ''AT'' ''https://host/ResA/region/AcctB/jwt/m.m3u8'' =
     ((Some \<lparr>Events = [example_session]\<rparr>, ''ResA'', None),
      \<lparr>sent = [\<lparr>req_method = ''GET'',
                 req_url = ''https://api.live.brightcove.com/v2/accounts/AcctB/sessions/resource/ResA'',
                 req_payload = None,
                 req_header = [(''Content-Type'', ''application/json''),
                               (''Authorization'', ''Bearer AT'')]\<rparr>],
       ticks = 0, out = [], logged = []\<rparr>)"
proof -
  have p1: "url_Parse example_env ''https://host/ResA/region'' = Inr ''/ResA/region''"
    by (simp add: example_env_def scripted_env_def)
  have e1: "strings_Split ''/ResA/region'' CHR ''/'' = ['''', ''ResA'', ''region'']"
    and e2: "strings_Split ''/ResA/region/AcctB/jwt/m.m3u8'' CHR ''/'' =
               ['''', ''ResA'', ''region'', ''AcctB'', ''jwt'', ''m.m3u8'']"
    by (simp_all add: strings_Split_def)
  note m1 = malformed_reference [OF p1 e1 [symmetric], of world0 "''AT''",
    THEN conjunct2, THEN conjunct1]
  have short: "getSessions example_env world0 ''AT'' ''https://host/ResA/region'' =
                 ((None, [], Some MalformedPlaybackURL), world0)"
    using m1 by simp
  from short e1 e2 example_sessions show ?thesis
    by simp
qed

text \<open>
  C7. As the claim words it, every answer with a status other than 200 makes the operation
  fail with the error that carries the status code and the body. That fails when the body
  cannot be read: \<open>doRequest\<close> reads the body before it looks at the status and returns
  ``error reading body'' for a read that failed, so the status code is lost. Below, the
  answer has status 500 and a body that breaks off; \<open>doRequest\<close>, and
  \<open>generatePlaybackURL\<close> through it, fail with the read error.
\<close>

theorem upstream_rejection_counterexample:
  "client_Do unreadable_env (sent world0) (resolve_request ''ResA'' \<lparr>Token = ''T2''\<rparr>) =
     Inr \<lparr>StatusCode = 500, Body = Inl ''connection reset''\<rparr> \<and>
   doRequest unreadable_env world0 ''GET''
     ''https://api.live.brightcove.com/v2/playback/ResA?pt=T2'' None
     [(''Content-Type'', ''application/json'')] =
     (([], Some (ReadingBody ''connection reset'')),
      \<lparr>sent = [resolve_request ''ResA'' \<lparr>Token = ''T2''\<rparr>], ticks = 0, out = [],
       logged = []\<rparr>) \<and>
   Error (ReadingBody ''connection reset'') = ''error reading body: connection reset'' \<and>
   generatePlaybackURL unreadable_env world0 [\<lparr>Token = ''T2''\<rparr>] ''ResA'' =
     (([], Some (ReadingBody ''connection reset'')),
      \<lparr>sent = [resolve_request ''ResA'' \<lparr>Token = ''T2''\<rparr>], ticks = 0, out = [],
       logged = []\<rparr>)"
  by (simp add: unreadable_resolve)
    (simp add: unreadable_env_def window_env_def scripted_env_def world0_def doRequest_def
       resolve_url_def resolve_request_def)

text \<open>
  C7, amended. \<open>doRequest\<close> on a request that was framed and answered, the answer's body
  read in full: a status other than 200 gives the error ``received error from API with
  status \<open>code\<close> and error \<open>body\<close>'' with the status code and the body as received, and
  status 200 gives the body itself. Every stage passes that error on unchanged: whenever
  any request issued by \<open>generateToken\<close>, \<open>getSessions\<close>, \<open>generatePlaybackToken\<close> or
  \<open>generatePlaybackURL\<close> meets such an answer, the stage's error is that one. An answer
  whose body cannot be read gives ``error reading body'' with the error of the read,
  whatever its status.
\<close>

theorem upstream_rejection:
  "(\<forall>w method url payload headers resp body.
      NewRequest env method url = None \<and>
      client_Do env (sent w)
        \<lparr>req_method = method, req_url = url, req_payload = payload, req_header = headers\<rparr> =
        Inr resp \<and>
      Body resp = Inr body \<longrightarrow>
      doRequest env w method url payload headers =
        ((if StatusCode resp = 200 then (body, None)
          else ([], Some (APIStatus (StatusCode resp) body))),
         w\<lparr>sent := sent w @ [\<lparr>req_method = method, req_url = url, req_payload = payload,
                                req_header = headers\<rparr>]\<rparr>)) \<and>
   (\<forall>code body.
      Error (APIStatus code body) =
        ''received error from API with status '' @ Itoa code @ '' and error '' @ body) \<and>
   (\<forall>w clientID clientSecret tok err w' reqs.
      generateToken env w clientID clientSecret = ((tok, err), w') \<and> sent w' = sent w @ reqs \<longrightarrow>
      rejections_surface env (sent w) reqs err) \<and>
   (\<forall>w token playbackURL ss rid err w' reqs.
      getSessions env w token playbackURL = ((ss, rid, err), w') \<and> sent w' = sent w @ reqs \<longrightarrow>
      rejections_surface env (sent w) reqs err) \<and>
   (\<forall>w sessions token toks err w' reqs.
      generatePlaybackToken env w sessions token = ((toks, err), w') \<and>
      sent w' = sent w @ reqs \<longrightarrow>
      rejections_surface env (sent w) reqs err) \<and>
   (\<forall>w tokens resourceID urls err w' reqs.
      generatePlaybackURL env w tokens resourceID = ((urls, err), w') \<and>
      sent w' = sent w @ reqs \<longrightarrow>
      rejections_surface env (sent w) reqs err) \<and>
   (\<forall>w method url payload headers resp e.
      NewRequest env method url = None \<and>
      client_Do env (sent w)
        \<lparr>req_method = method, req_url = url, req_payload = payload, req_header = headers\<rparr> =
        Inr resp \<and>
      Body resp = Inl e \<longrightarrow>
      doRequest env w method url payload headers =
        (([], Some (ReadingBody e)),
         w\<lparr>sent := sent w @ [\<lparr>req_method = method, req_url = url, req_payload = payload,
                                req_header = headers\<rparr>]\<rparr>))"
proof (intro conjI allI impI)
  fix w :: world and m url payload headers resp body
  assume "NewRequest env m url = None \<and>
      client_Do env (sent w)
        \<lparr>req_method = m, req_url = url, req_payload = payload, req_header = headers\<rparr> =
        Inr resp \<and>
      Body resp = Inr body"
  then show "doRequest env w m url payload headers =
        ((if StatusCode resp = 200 then (body, None)
          else ([], Some (APIStatus (StatusCode resp) body))),
         w\<lparr>sent := sent w @ [\<lparr>req_method = m, req_url = url, req_payload = payload,
                                req_header = headers\<rparr>]\<rparr>)"
    by (simp add: doRequest_def)
next
  fix code body
  show "Error (APIStatus code body) =
        ''received error from API with status '' @ Itoa code @ '' and error '' @ body"
    by simp
next
  fix w clientID clientSecret tok err w' reqs
  assume "generateToken env w clientID clientSecret = ((tok, err), w') \<and>
          sent w' = sent w @ reqs"
  then show "rejections_surface env (sent w) reqs err"
    using generateToken_rejections by fastforce
next
  fix w token playbackURL ss rid err w' reqs
  assume "getSessions env w token playbackURL = ((ss, rid, err), w') \<and>
          sent w' = sent w @ reqs"
  then show "rejections_surface env (sent w) reqs err"
    using getSessions_rejections by fastforce
next
  fix w sessions token toks err w' reqs
  assume "generatePlaybackToken env w sessions token = ((toks, err), w') \<and>
          sent w' = sent w @ reqs"
  then show "rejections_surface env (sent w) reqs err"
    using generatePlaybackToken_rejections by fastforce
next
  fix w tokens resourceID urls err w' reqs
  assume "generatePlaybackURL env w tokens resourceID = ((urls, err), w') \<and>
          sent w' = sent w @ reqs"
  then show "rejections_surface env (sent w) reqs err"
    using resolve_loop_rejections unfolding generatePlaybackURL_def by fastforce
next
  fix w :: world and m url payload headers resp e
  assume "NewRequest env m url = None \<and>
      client_Do env (sent w)
        \<lparr>req_method = m, req_url = url, req_payload = payload, req_header = headers\<rparr> =
        Inr resp \<and>
      Body resp = Inl e"
  then show "doRequest env w m url payload headers =
        (([], Some (ReadingBody e)),
         w\<lparr>sent := sent w @ [\<lparr>req_method = m, req_url = url, req_payload = payload,
                                req_header = headers\<rparr>]\<rparr>)"
    by (simp add: doRequest_def)
qed

theorem upstream_rejection_witness:
  "doRequest window_env world0 ''GET'' ''https://api.live.brightcove.com/v2/playback/ResA?pt=T9''
     None [(''Content-Type'', ''application/json'')] =
     (([], Some (APIStatus 404 ''not found'')),
      \<lparr>sent = [\<lparr>req_method = ''GET'',
                 req_url = ''https://api.live.brightcove.com/v2/playback/ResA?pt=T9'',
                 req_payload = None,
                 req_header = [(''Content-Type'', ''application/json'')]\<rparr>],
       ticks = 0, out = [], logged = []\<rparr>) \<and>
   doRequest window_env world0 ''GET'' ''https://api.live.brightcove.com/v2/playback/ResA?pt=T2''
     None [(''Content-Type'', ''application/json'')] =
     ((''https://resolved.example/2'', None),
      \<lparr>sent = [\<lparr>req_method = ''GET'',
                 req_url = ''https://api.live.brightcove.com/v2/playback/ResA?pt=T2'',
                 req_payload = None,
                 req_header = [(''Content-Type'', ''application/json'')]\<rparr>],
       ticks = 0, out = [], logged = []\<rparr>) \<and>
   Error (APIStatus 404 ''not found'') =
     ''received error from API with status 404 and error not found''"
proof -
  note rule = upstream_rejection [of window_env, THEN conjunct1, rule_format]
  let ?h = "[(''Content-Type'', ''application/json'')]"
  let ?u9 = "''https://api.live.brightcove.com/v2/playback/ResA?pt=T9''"
  let ?u2 = "''https://api.live.brightcove.com/v2/playback/ResA?pt=T2''"
  have n: "NewRequest window_env ''GET'' ?u9 = None" "NewRequest window_env ''GET'' ?u2 = None"
    by (simp_all add: window_env_def scripted_env_def)
  have c9: "client_Do window_env (sent world0)
              \<lparr>req_method = ''GET'', req_url = ?u9, req_payload = None, req_header = ?h\<rparr> =
              Inr \<lparr>StatusCode = 404, Body = Inr ''not found''\<rparr>"
    by (simp add: window_env_def scripted_env_def scripted_client_def)
  have c2: "client_Do window_env (sent world0)
              \<lparr>req_method = ''GET'', req_url = ?u2, req_payload = None, req_header = ?h\<rparr> =
              Inr \<lparr>StatusCode = 200, Body = Inr ''https://resolved.example/2''\<rparr>"
    by (simp add: window_env_def scripted_env_def scripted_client_def)
  have b9: "Body \<lparr>StatusCode = 404, Body = Inr ''not found''\<rparr> = Inr ''not found''"
    and b2: "Body \<lparr>StatusCode = 200, Body = Inr ''https://resolved.example/2''\<rparr> =
               Inr ''https://resolved.example/2''"
    by simp_all
  from rule [OF conjI [OF n(1) conjI [OF c9 b9]]] rule [OF conjI [OF n(2) conjI [OF c2 b2]]]
  show ?thesis
    by (simp add: world0_def Itoa_def nat_digits.simps)
qed

text \<open>
  C8. Every request that \<open>generatePlaybackToken\<close> issues is the POST to the minting
  endpoint whose body is the JSON encoding of \<open>start_time\<close>, \<open>end_time\<close> and
  \<open>manifest_format\<close>, where the first two are \<open>strconv.Itoa\<close> of the start and end time
  of one of the sessions and the third is \<open>hls\<close>; by position, the requests are those
  of an initial segment of the sessions that are not skipped, each request carrying the
  times of the session it is made for. \<open>Itoa\<close> is the decimal rendering: for a
  number that is not negative it consists of decimal digits whose value is the number, and
  for a negative one it is \<open>-\<close> followed by the rendering of its absolute value. The
  example after it is the end-to-end example of the specification: one session from 1000
  to 2000 gives one minting request with \<open>1000\<close>, \<open>2000\<close> and \<open>hls\<close>, and \<open>main\<close>
  prints one URL.
\<close>

theorem mint_request_body:
  assumes "Events sessions = first # rest"
    and "generatePlaybackToken env w sessions token = (result, w')"
  shows "(\<exists>reqs. sent w' = sent w @ reqs \<and>
           (\<forall>r \<in> set reqs. \<exists>s \<in> set (Events sessions). \<exists>buf.
              json_Encode env
                \<lparr>data_StartTime = Itoa (StartTime s), data_EndTime = Itoa (EndTime s),
                 data_ManifestFormat = ''hls''\<rparr> = Inr buf \<and>
              r = \<lparr>req_method = ''POST'', req_url = mint_url first, req_payload = Some buf,
                   req_header = bearer_headers token\<rparr>)) \<and>
         (\<forall>i \<ge> 0. int (decimal_value (Itoa i)) = i \<and> set (Itoa i) \<subseteq> set ''0123456789'') \<and>
         (\<forall>i < 0. Itoa i = CHR ''-'' # Itoa (- i)) \<and>
         (\<exists>reqs n. sent w' = sent w @ reqs \<and>
            list_all2
              (\<lambda>s r. \<exists>buf.
                 json_Encode env
                   \<lparr>data_StartTime = Itoa (StartTime s), data_EndTime = Itoa (EndTime s),
                    data_ManifestFormat = ''hls''\<rparr> = Inr buf \<and>
                 r = \<lparr>req_method = ''POST'', req_url = mint_url first, req_payload = Some buf,
                      req_header = bearer_headers token\<rparr>)
              (take n (eligible env (ticks w) (Events sessions))) reqs)"
proof (intro conjI)
  obtain toks err where res: "result = (toks, err)"
    by (cases result)
  show "\<exists>reqs. sent w' = sent w @ reqs \<and>
           (\<forall>r \<in> set reqs. \<exists>s \<in> set (Events sessions). \<exists>buf.
              json_Encode env
                \<lparr>data_StartTime = Itoa (StartTime s), data_EndTime = Itoa (EndTime s),
                 data_ManifestFormat = ''hls''\<rparr> = Inr buf \<and>
              r = \<lparr>req_method = ''POST'', req_url = mint_url first, req_payload = Some buf,
                   req_header = bearer_headers token\<rparr>)"
  proof (cases "find (\<lambda>s. EndTime s = 0) (Events sessions)")
    case (Some live)
    with assms have "sent w' = sent w @ []"
      by (auto simp: generatePlaybackToken_def simp del: mint_loop.simps)
    then show ?thesis by fastforce
  next
    case None
    obtain r w1 where
      loop: "mint_loop env (mint_url first) token (Events sessions) [] w = (r, w1)"
      by (metis prod.exhaust)
    with None assms res have w1: "w1 = w'"
      by (auto simp: generatePlaybackToken_def simp del: mint_loop.simps
            split: option.splits if_splits prod.splits)
    from mint_loop_sent_prefix [OF loop] obtain reqs n where
      pre: "sent w1 = sent w @ reqs"
           "list_all2 (is_mint_request env (mint_url first) token)
              (take n (eligible env (ticks w) (Events sessions))) reqs"
      by blast
    have "\<exists>s \<in> set (Events sessions). \<exists>buf.
              json_Encode env
                \<lparr>data_StartTime = Itoa (StartTime s), data_EndTime = Itoa (EndTime s),
                 data_ManifestFormat = ''hls''\<rparr> = Inr buf \<and>
              r = \<lparr>req_method = ''POST'', req_url = mint_url first, req_payload = Some buf,
                   req_header = bearer_headers token\<rparr>"
      if "r \<in> set reqs" for r
    proof -
      from list_all2_partner [OF pre(2) that] obtain s where
        s: "s \<in> set (take n (eligible env (ticks w) (Events sessions)))"
           "is_mint_request env (mint_url first) token s r"
        by blast
      from s(1) have "s \<in> set (Events sessions)"
        using eligible_subset by (blast dest: in_set_takeD)
      with s(2) show ?thesis
        by (auto simp: is_mint_request_def mint_payload_def manifestFormatHLS_def
              split: sum.splits)
    qed
    with pre(1) w1 show ?thesis by blast
  qed
next
  show "\<forall>i \<ge> 0. int (decimal_value (Itoa i)) = i \<and> set (Itoa i) \<subseteq> set ''0123456789''"
    using nat_digits_are_digits by (simp add: Itoa_def decimal_value_nat_digits)
next
  show "\<forall>i < 0. Itoa i = CHR ''-'' # Itoa (- i)"
    by (simp add: Itoa_def)
next
  obtain toks err where "generatePlaybackToken env w sessions token = ((toks, err), w')"
    using assms(2) by (cases result) simp
  from generatePlaybackToken_window [OF assms(1) this] obtain reqs n where
    pre: "sent w' = sent w @ reqs"
         "list_all2 (is_mint_request env (mint_url first) token)
            (take n (eligible env (ticks w) (Events sessions))) reqs"
    by blast
  from pre(2) have
    "list_all2
       (\<lambda>s r. \<exists>buf.
          json_Encode env
            \<lparr>data_StartTime = Itoa (StartTime s), data_EndTime = Itoa (EndTime s),
             data_ManifestFormat = ''hls''\<rparr> = Inr buf \<and>
          r = \<lparr>req_method = ''POST'', req_url = mint_url first, req_payload = Some buf,
               req_header = bearer_headers token\<rparr>)
       (take n (eligible env (ticks w) (Events sessions))) reqs"
    by (rule list_all2_mono)
      (auto simp: is_mint_request_def mint_payload_def manifestFormatHLS_def split: sum.splits)
  with pre(1) show
    "\<exists>reqs n. sent w' = sent w @ reqs \<and>
       list_all2
         (\<lambda>s r. \<exists>buf.
            json_Encode env
              \<lparr>data_StartTime = Itoa (StartTime s), data_EndTime = Itoa (EndTime s),
               data_ManifestFormat = ''hls''\<rparr> = Inr buf \<and>
            r = \<lparr>req_method = ''POST'', req_url = mint_url first, req_payload = Some buf,
                 req_header = bearer_headers token\<rparr>)
         (take n (eligible env (ticks w) (Events sessions))) reqs"
    by blast
qed

theorem mint_request_body_witness:
  "(\<exists>buf. json_Encode example_env
             \<lparr>data_StartTime = ''1000'', data_EndTime = ''2000'',
              data_ManifestFormat = ''hls''\<rparr> = Inr buf \<and>
          sent (snd (generatePlaybackToken example_env world0
                       \<lparr>Events = [example_session]\<rparr> ''AT'')) =
            [\<lparr>req_method = ''POST'',
              req_url = ''https://api.live.brightcove.com/v2/accounts/AcctB/playback/ResA/token'',
              req_payload = Some buf,
              req_header = [(''Content-Type'', ''application/json''),
                            (''Authorization'', ''Bearer AT'')]\<rparr>]) \<and>
   fst (generatePlaybackToken example_env world0 \<lparr>Events = [example_session]\<rparr> ''AT'') =
     ([\<lparr>Token = ''T1''\<rparr>], None) \<and>
   fst (main example_env world0) = Returned \<and>
   out (snd (main example_env world0)) =
     [[CHR 0x0A] @ ''VOD URL[0]: https://resolved.example/1'' @ [CHR 0x0A], [CHR 0x0A]] \<and>
   int (decimal_value (Itoa 1000)) = 1000 \<and> Itoa 1000 = ''1000'' \<and> Itoa 2000 = ''2000''"
proof -
  have ev: "Events \<lparr>Events = [example_session]\<rparr> = example_session # []"
    by simp
  from mint_request_body [OF ev example_mint] obtain reqs where
    r: "sent (snd (generatePlaybackToken example_env world0
                     \<lparr>Events = [example_session]\<rparr> ''AT'')) = sent world0 @ reqs"
       "\<forall>r \<in> set reqs. \<exists>s \<in> set (Events \<lparr>Events = [example_session]\<rparr>). \<exists>buf.
          json_Encode example_env
            \<lparr>data_StartTime = Itoa (StartTime s), data_EndTime = Itoa (EndTime s),
             data_ManifestFormat = ''hls''\<rparr> = Inr buf \<and>
          r = \<lparr>req_method = ''POST'', req_url = mint_url example_session,
               req_payload = Some buf, req_header = bearer_headers ''AT''\<rparr>"
    and d: "\<forall>i \<ge> 0. int (decimal_value (Itoa i)) = i \<and> set (Itoa i) \<subseteq> set ''0123456789''"
    by (auto simp: example_mint)
  have i: "Itoa 1000 = ''1000''" "Itoa 2000 = ''2000''"
    by (simp_all add: Itoa_def nat_digits.simps)
  have "sent (snd (generatePlaybackToken example_env world0
                     \<lparr>Events = [example_session]\<rparr> ''AT'')) =
     [\<lparr>req_method = ''POST'',
       req_url = ''https://api.live.brightcove.com/v2/accounts/AcctB/playback/ResA/token'',
       req_payload = Some ''1000-2000-hls'',
       req_header = [(''Content-Type'', ''application/json''),
                     (''Authorization'', ''Bearer AT'')]\<rparr>]"
    by (simp add: example_mint)
  with r(1) have reqs: "reqs =
     [\<lparr>req_method = ''POST'',
       req_url = ''https://api.live.brightcove.com/v2/accounts/AcctB/playback/ResA/token'',
       req_payload = Some ''1000-2000-hls'',
       req_header = [(''Content-Type'', ''application/json''),
                     (''Authorization'', ''Bearer AT'')]\<rparr>]"
    by (simp add: world0_def)
  from r(2) obtain buf where
    "json_Encode example_env
       \<lparr>data_StartTime = ''1000'', data_EndTime = ''2000'', data_ManifestFormat = ''hls''\<rparr> =
       Inr buf"
    "Some ''1000-2000-hls'' = Some buf"
    unfolding reqs by (auto simp: example_session_def i)
  then have enc: "\<exists>buf. json_Encode example_env
             \<lparr>data_StartTime = ''1000'', data_EndTime = ''2000'',
              data_ManifestFormat = ''hls''\<rparr> = Inr buf \<and>
          sent (snd (generatePlaybackToken example_env world0
                       \<lparr>Events = [example_session]\<rparr> ''AT'')) =
            [\<lparr>req_method = ''POST'',
              req_url = ''https://api.live.brightcove.com/v2/accounts/AcctB/playback/ResA/token'',
              req_payload = Some buf,
              req_header = [(''Content-Type'', ''application/json''),
                            (''Authorization'', ''Bearer AT'')]\<rparr>]"
    by (auto simp: example_mint)
  from d have "int (decimal_value (Itoa 1000)) = 1000" by simp
  with enc i show ?thesis
    by (simp add: example_mint example_main)
qed

text \<open>
  C9. Both batch stages fail fast and return nothing with an error. Whenever
  \<open>generatePlaybackToken\<close> or \<open>generatePlaybackURL\<close> returns an error, the list it
  returns is empty. If the loop has handled the items \<open>before\<close> successfully and the next
  item fails with \<open>e\<close>, the whole stage returns \<open>e\<close> with the empty list and the world
  in which that item failed: the tokens or URLs obtained so far are dropped and no request
  is made for the items \<open>after\<close>.
\<close>

theorem fail_fast_no_partial:
  "(\<forall>w sessions token toks e w'.
      generatePlaybackToken env w sessions token = ((toks, Some e), w') \<longrightarrow> toks = []) \<and>
   (\<forall>w tokens resourceID urls e w'.
      generatePlaybackURL env w tokens resourceID = ((urls, Some e), w') \<longrightarrow> urls = []) \<and>
   (\<forall>w sessions token before s after first rest ts w1 x e w2.
      Events sessions = before @ s # after \<and> Events sessions = first # rest \<and>
      (\<forall>y \<in> set (Events sessions). EndTime y \<noteq> 0) \<and>
      mint_loop env (mint_url first) token before [] w = ((ts, None), w1) \<and>
      mint_loop env (mint_url first) token [s] [] w1 = ((x, Some e), w2) \<longrightarrow>
      generatePlaybackToken env w sessions token = (([], Some e), w2)) \<and>
   (\<forall>w resourceID before t after us w1 x e w2.
      generatePlaybackURL env w before resourceID = ((us, None), w1) \<and>
      generatePlaybackURL env w1 [t] resourceID = ((x, Some e), w2) \<longrightarrow>
      generatePlaybackURL env w (before @ t # after) resourceID = (([], Some e), w2))"
proof (intro conjI allI impI)
  fix w sessions token toks e w'
  assume "generatePlaybackToken env w sessions token = ((toks, Some e), w')"
  then show "toks = []"
    by (auto simp: generatePlaybackToken_def simp del: mint_loop.simps
          split: list.splits option.splits prod.splits if_splits dest: mint_loop_error_nil)
next
  fix w tokens resourceID urls e w'
  assume "generatePlaybackURL env w tokens resourceID = ((urls, Some e), w')"
  then show "urls = []"
    by (simp add: generatePlaybackURL_def resolve_loop_error_nil)
next
  fix w and sessions :: Sessions and token before s after first rest ts w1 x e w2
  assume a: "Events sessions = before @ s # after \<and> Events sessions = first # rest \<and>
      (\<forall>y \<in> set (Events sessions). EndTime y \<noteq> 0) \<and>
      mint_loop env (mint_url first) token before [] w = ((ts, None), w1) \<and>
      mint_loop env (mint_url first) token [s] [] w1 = ((x, Some e), w2)"
  note a1 = a [THEN conjunct1]
    and a2 = a [THEN conjunct2, THEN conjunct1]
    and a3 = a [THEN conjunct2, THEN conjunct2, THEN conjunct1]
    and a4 = a [THEN conjunct2, THEN conjunct2, THEN conjunct2, THEN conjunct1]
    and a5 = a [THEN conjunct2, THEN conjunct2, THEN conjunct2, THEN conjunct2]
  from a3 have nolive: "find (\<lambda>s. EndTime s = 0) (Events sessions) = None"
    by (simp add: find_None_iff)
  from a5 have one: "mint_loop env (mint_url first) token [s] ts w1 = ((x, Some e), w2)"
    by (rule mint_loop_error_acc)
  then have x: "x = []" by (rule mint_loop_error_nil)
  have "mint_loop env (mint_url first) token ([s] @ after) ts w1 = ((x, Some e), w2)"
  proof (cases "out_of_window (clock env (ticks w1)) s")
    case True
    with one show ?thesis by (simp add: time_Now_def)
  next
    case False
    with one show ?thesis
      by (auto simp: time_Now_def split: sum.splits prod.splits option.splits)
  qed
  moreover from a4 have
    "mint_loop env (mint_url first) token (before @ ([s] @ after)) [] w =
       mint_loop env (mint_url first) token ([s] @ after) ts w1"
    by (rule mint_loop_append_ok)
  ultimately have
    "mint_loop env (mint_url first) token (before @ s # after) [] w = (([], Some e), w2)"
    using x by simp
  then have "mint_loop env (mint_url first) token (Events sessions) [] w = (([], Some e), w2)"
    by (simp only: a1)
  with nolive a2 show "generatePlaybackToken env w sessions token = (([], Some e), w2)"
    by (simp add: generatePlaybackToken_def del: mint_loop.simps)
next
  fix w resourceID before t after us w1 x e w2
  assume a: "generatePlaybackURL env w before resourceID = ((us, None), w1) \<and>
      generatePlaybackURL env w1 [t] resourceID = ((x, Some e), w2)"
  note a1 = a [THEN conjunct1] and a2 = a [THEN conjunct2]
  from a2 have one: "resolve_loop env resourceID [t] us w1 = ((x, Some e), w2)"
    unfolding generatePlaybackURL_def by (rule resolve_loop_error_acc)
  then have x: "x = []" by (rule resolve_loop_error_nil)
  from one have "resolve_loop env resourceID ([t] @ after) us w1 = ((x, Some e), w2)"
    by (auto split: sum.splits prod.splits option.splits)
  moreover from a1 have
    "resolve_loop env resourceID (before @ ([t] @ after)) [] w =
       resolve_loop env resourceID ([t] @ after) us w1"
    unfolding generatePlaybackURL_def by (rule resolve_loop_append_ok)
  ultimately show "generatePlaybackURL env w (before @ t # after) resourceID = (([], Some e), w2)"
    using x by (simp add: generatePlaybackURL_def)
qed

theorem fail_fast_no_partial_witness:
  "generatePlaybackURL window_env world0
     [\<lparr>Token = ''T2''\<rparr>, \<lparr>Token = ''T9''\<rparr>, \<lparr>Token = ''T2''\<rparr>] ''ResA'' =
     (([], Some (APIStatus 404 ''not found'')),
      \<lparr>sent = [resolve_request ''ResA'' \<lparr>Token = ''T2''\<rparr>,
               resolve_request ''ResA'' \<lparr>Token = ''T9''\<rparr>],
       ticks = 0, out = [], logged = []\<rparr>) \<and>
   generatePlaybackToken window_env world0
     \<lparr>Events = [session_ending ''s2'' 2505600, session_ending ''s3'' 2505700,
                session_ending ''s4'' 2505800]\<rparr> ''AT'' =
     (([], Some (APIStatus 404 ''not found'')),
      \<lparr>sent = [\<lparr>req_method = ''POST'',
                 req_url = ''https://api.live.brightcove.com/v2/accounts/AcctB/playback/ResA/token'',
                 req_payload = Some ''2502000-2505600-hls'',
                 req_header = [(''Content-Type'', ''application/json''),
                               (''Authorization'', ''Bearer AT'')]\<rparr>,
               \<lparr>req_method = ''POST'',
                 req_url = ''https://api.live.brightcove.com/v2/accounts/AcctB/playback/ResA/token'',
                 req_payload = Some ''2502100-2505700-hls'',
                 req_header = [(''Content-Type'', ''application/json''),
                               (''Authorization'', ''Bearer AT'')]\<rparr>],
       ticks = 2, out = [], logged = []\<rparr>)"
proof (rule conjI)
  note rule = fail_fast_no_partial [of window_env, THEN conjunct2, THEN conjunct2,
    THEN conjunct2, rule_format]
  from rule [OF conjI [OF window_resolve_one window_resolve_fails], of "[\<lparr>Token = ''T2''\<rparr>]"]
  show "generatePlaybackURL window_env world0
     [\<lparr>Token = ''T2''\<rparr>, \<lparr>Token = ''T9''\<rparr>, \<lparr>Token = ''T2''\<rparr>] ''ResA'' =
     (([], Some (APIStatus 404 ''not found'')),
      \<lparr>sent = [resolve_request ''ResA'' \<lparr>Token = ''T2''\<rparr>,
               resolve_request ''ResA'' \<lparr>Token = ''T9''\<rparr>],
       ticks = 0, out = [], logged = []\<rparr>)"
    by simp
next
  let ?ss = "\<lparr>Events = [session_ending ''s2'' 2505600, session_ending ''s3'' 2505700,
                session_ending ''s4'' 2505800]\<rparr>"
  note rule = fail_fast_no_partial [of window_env, THEN conjunct2, THEN conjunct2,
    THEN conjunct1, rule_format]
  have 1: "Events ?ss = [session_ending ''s2'' 2505600] @ session_ending ''s3'' 2505700 #
             [session_ending ''s4'' 2505800]"
    by simp
  have 2: "Events ?ss = session_ending ''s2'' 2505600 #
             [session_ending ''s3'' 2505700, session_ending ''s4'' 2505800]"
    by simp
  have 3: "\<forall>y \<in> set (Events ?ss). EndTime y \<noteq> 0"
    by (simp add: session_ending_def)
  from rule [OF conjI [OF 1 conjI [OF 2 conjI [OF 3
    conjI [OF window_mint_one window_mint_fails]]]]]
  show "generatePlaybackToken window_env world0 ?ss ''AT'' =
     (([], Some (APIStatus 404 ''not found'')),
      \<lparr>sent = [\<lparr>req_method = ''POST'',
                 req_url = ''https://api.live.brightcove.com/v2/accounts/AcctB/playback/ResA/token'',
                 req_payload = Some ''2502000-2505600-hls'',
                 req_header = [(''Content-Type'', ''application/json''),
                               (''Authorization'', ''Bearer AT'')]\<rparr>,
               \<lparr>req_method = ''POST'',
                 req_url = ''https://api.live.brightcove.com/v2/accounts/AcctB/playback/ResA/token'',
                 req_payload = Some ''2502100-2505700-hls'',
                 req_header = [(''Content-Type'', ''application/json''),
                               (''Authorization'', ''Bearer AT'')]\<rparr>],
       ticks = 2, out = [], logged = []\<rparr>)" .
qed

text \<open>
  C10. \<open>generatePlaybackURL\<close> on an empty token list returns the empty URL list with
  no error and leaves the world as it was (no request is made). The pipeline never reaches
  it with an empty list: a successful \<open>generatePlaybackToken\<close> returns at least one token.
\<close>

theorem empty_token_list:
  "generatePlaybackURL env w [] resourceID = (([], None), w) \<and>
   (\<forall>w0 sessions token toks w'.
      generatePlaybackToken env w0 sessions token = ((toks, None), w') \<longrightarrow> toks \<noteq> [])"
  by (auto simp: generatePlaybackURL_def generatePlaybackToken_def
           split: list.splits option.splits prod.splits if_splits)

theorem empty_token_list_witness:
  "generatePlaybackURL example_env world0 [] ''ResA'' = (([], None), world0) \<and>
   fst (generatePlaybackToken example_env world0 \<lparr>Events = [example_session]\<rparr> ''AT'') =
     ([\<lparr>Token = ''T1''\<rparr>], None) \<and>
   [\<lparr>Token = ''T1''\<rparr>] \<noteq> []"
  using empty_token_list [of example_env world0 "''ResA''"] example_mint
  by simp

end
